theory Spec2Isabelle
  imports Main "HOL-Library.Word" "HOL-Library.Sublist" "HOL-Library.Multiset"
begin

section \<open>Values of the Go program\<close>

text \<open>
  A \<open>time.Time\<close> is an instant, counted in nanoseconds from Go's zero time
  (January 1, year 1, 00:00:00 UTC); \<open>t.IsZero()\<close> holds of that instant only. A
  \<open>time.Duration\<close> is a signed 64-bit count of nanoseconds. An \<open>error\<close> is
  modelled by its message (\<open>err.Error()\<close>); \<open>fmt.Errorf\<close> with \<open>%w\<close> or
  \<open>%v\<close> concatenates messages.
\<close>

type_synonym time = int
type_synonym err = string

definition IsZero :: "time \<Rightarrow> bool" where
  "IsZero t = (t = 0)"

definition Before :: "time \<Rightarrow> time \<Rightarrow> bool" where
  "Before t u = (t < u)"

definition After :: "time \<Rightarrow> time \<Rightarrow> bool" where
  "After t u = (t > u)"

definition Second :: int where
  "Second = 1000000000"

definition Minute :: int where
  "Minute = 60 * Second"

definition Hour :: int where
  "Hour = 60 * Minute"

text \<open>\<open>time.Duration(n) * time.Second\<close>: a product of two int64 values, which wraps.\<close>

definition seconds_Duration :: "int \<Rightarrow> int" where
  "seconds_Duration n = sint ((word_of_int n :: 64 word) * word_of_int Second)"

subsection \<open>domain.Account and domain.Video\<close>

record Account =
  acc_ID :: string
  acc_YouTubeChannelID :: string
  acc_TikTokAccountID :: string
  acc_TikTokAccessToken :: string
  acc_TikTokRefreshToken :: string
  acc_TikTokTokenExpiresAt :: "time option"
  acc_LastCheckedAt :: time
  acc_LastVideoID :: string
  acc_IsActive :: bool
  acc_CreatedAt :: time
  acc_UpdatedAt :: time

type_synonym VideoStatus = string

definition VideoStatusPending :: VideoStatus where
  "VideoStatusPending = ''pending''"

definition VideoStatusDownloading :: VideoStatus where
  "VideoStatusDownloading = ''downloading''"

definition VideoStatusDownloaded :: VideoStatus where
  "VideoStatusDownloaded = ''downloaded''"

definition VideoStatusUploading :: VideoStatus where
  "VideoStatusUploading = ''uploading''"

definition VideoStatusCompleted :: VideoStatus where
  "VideoStatusCompleted = ''completed''"

definition VideoStatusFailed :: VideoStatus where
  "VideoStatusFailed = ''failed''"

record Video =
  vid_ID :: string
  vid_YouTubeVideoID :: string
  vid_AccountID :: string
  vid_Title :: string
  vid_Description :: string
  vid_ThumbnailURL :: string
  vid_VideoURL :: string
  vid_LocalFilePath :: string
  vid_Status :: VideoStatus
  vid_ErrorMessage :: string
  vid_TikTokVideoID :: string
  vid_CreatedAt :: time
  vid_UpdatedAt :: time
  vid_PublishedAt :: time

subsection \<open>The outside world\<close>

text \<open>
  Everything the program reads from outside is an oracle of the environment, indexed
  by how many reads of that kind came before: the clock (\<open>time.Now()\<close>), the
  outcome of the n-th SQL statement (an I/O failure, or none), the n-th
  \<open>uuid.NewString()\<close>, and the answers of the sink (TikTok), of the source listing
  (YouTube) and of the downloader, indexed by the number of external calls made so far.
  \<open>sort.Slice\<close> is not stable, so the order it leaves among equal keys is the
  environment's too (\<open>sort_Slice\<close>); \<open>ctx_err n\<close> is what \<open>ctx.Err()\<close>
  returns at the n-th round of the drain loop.
\<close>

record TokenData =
  tok_AccessToken :: string
  tok_ExpiresIn :: int
  tok_RefreshToken :: string

record UploadRequest =
  req_AccessToken :: string
  req_OpenID :: string
  req_VideoPath :: string
  req_Title :: string
  req_Description :: string
  req_PrivacyLevel :: string

text \<open>
  The decoded answer to the publish request, the last of the three requests of
  \<open>UploadVideo\<close>: the HTTP status, the body as \<open>previewBody\<close> shows it, and the
  fields \<open>data.video_id\<close>, \<open>error.code\<close> and \<open>error.message\<close> of the JSON, each
  empty when the JSON does not carry it.
\<close>

record publish_response =
  pub_StatusCode :: int
  pub_Body :: string
  pub_VideoID :: string
  pub_ErrorCode :: string
  pub_ErrorMessage :: string

datatype ext_call =
    VerifyAccessTokenCall string
  | RefreshAccessTokenCall string
  | DownloadVideoCall string
  | UploadVideoCall UploadRequest
  | GetLatestVideosCall string int

record env =
  clock :: "nat \<Rightarrow> time"
  db_err :: "nat \<Rightarrow> err option"
  new_uuid :: "nat \<Rightarrow> string"
  verify_resp :: "nat \<Rightarrow> string \<Rightarrow> err + bool"
  refresh_resp :: "nat \<Rightarrow> string \<Rightarrow> err + TokenData"
  download_resp :: "nat \<Rightarrow> string \<Rightarrow> err + string"
  upload_resp :: "nat \<Rightarrow> UploadRequest \<Rightarrow> err + publish_response"
  youtube_resp :: "nat \<Rightarrow> string \<Rightarrow> err + Video list"
  sort_Slice :: "Video list \<Rightarrow> Video list"
  ctx_err :: "nat \<Rightarrow> err option"

text \<open>
  The state: the two tables of the SQLite database (rows in insertion order), the
  counters of the oracles, and two histories kept for the statements about what happened:
  the external calls made so far and the status values written to rows of \<open>videos\<close>
  (row id and status), both oldest first.
\<close>

record world =
  accounts :: "Account list"
  videos :: "Video list"
  ticks :: nat
  db_ops :: nat
  uuids :: nat
  calls :: "ext_call list"
  status_log :: "(string \<times> VideoStatus) list"

definition time_Now :: "env \<Rightarrow> world \<Rightarrow> time \<times> world" where
  "time_Now e w = (clock e (ticks w), w\<lparr>ticks := Suc (ticks w)\<rparr>)"

definition uuid_NewString :: "env \<Rightarrow> world \<Rightarrow> string \<times> world" where
  "uuid_NewString e w = (new_uuid e (uuids w), w\<lparr>uuids := Suc (uuids w)\<rparr>)"

text \<open>The I/O outcome of the next SQL statement; the statement's own logic follows it.\<close>

definition db_stmt :: "env \<Rightarrow> world \<Rightarrow> err option \<times> world" where
  "db_stmt e w = (db_err e (db_ops w), w\<lparr>db_ops := Suc (db_ops w)\<rparr>)"

definition ext :: "ext_call \<Rightarrow> world \<Rightarrow> nat \<times> world" where
  "ext c w = (length (calls w), w\<lparr>calls := calls w @ [c]\<rparr>)"

section \<open>sqlite.AccountRepository\<close>

text \<open>
  Table \<open>accounts\<close>: \<open>id\<close> is the primary key, \<open>youtube_channel_id\<close> and
  \<open>tiktok_account_id\<close> are UNIQUE. A nil or zero \<open>TikTokTokenExpiresAt\<close> is
  written as NULL and read back as nil (\<open>nullableTimePtr\<close>, \<open>scanAccount\<close>).
\<close>

definition nullableTimePtr :: "time option \<Rightarrow> time option" where
  "nullableTimePtr t = (case t of None \<Rightarrow> None | Some u \<Rightarrow> if IsZero u then None else Some u)"

definition account_row :: "Account \<Rightarrow> Account" where
  "account_row a = a\<lparr>acc_TikTokTokenExpiresAt := nullableTimePtr (acc_TikTokTokenExpiresAt a)\<rparr>"

definition GetByID :: "env \<Rightarrow> world \<Rightarrow> string \<Rightarrow> (err + Account option) \<times> world" where
  "GetByID e w ident =
     (case db_stmt e w of
        (Some er, w1) \<Rightarrow> (Inl er, w1)
      | (None, w1) \<Rightarrow> (Inr (find (\<lambda>r. acc_ID r = ident) (accounts w1)), w1))"

definition GetByYouTubeChannelID :: "env \<Rightarrow> world \<Rightarrow> string \<Rightarrow> (err + Account option) \<times> world" where
  "GetByYouTubeChannelID e w channelID =
     (case db_stmt e w of
        (Some er, w1) \<Rightarrow> (Inl er, w1)
      | (None, w1) \<Rightarrow> (Inr (find (\<lambda>r. acc_YouTubeChannelID r = channelID) (accounts w1)), w1))"

definition GetByTikTokAccountID :: "env \<Rightarrow> world \<Rightarrow> string \<Rightarrow> (err + Account option) \<times> world" where
  "GetByTikTokAccountID e w tiktokID =
     (case db_stmt e w of
        (Some er, w1) \<Rightarrow> (Inl er, w1)
      | (None, w1) \<Rightarrow> (Inr (find (\<lambda>r. acc_TikTokAccountID r = tiktokID) (accounts w1)), w1))"

definition GetByYouTubeAndTikTok ::
  "env \<Rightarrow> world \<Rightarrow> string \<Rightarrow> string \<Rightarrow> (err + Account option) \<times> world" where
  "GetByYouTubeAndTikTok e w youtubeChannelID tiktokAccountID =
     (case db_stmt e w of
        (Some er, w1) \<Rightarrow> (Inl er, w1)
      | (None, w1) \<Rightarrow>
          (Inr (find (\<lambda>r. acc_YouTubeChannelID r = youtubeChannelID \<and>
                           acc_TikTokAccountID r = tiktokAccountID) (accounts w1)), w1))"

text \<open>
  \<open>INSERT ... ON CONFLICT(id) DO UPDATE\<close>: a row with the id is updated in every
  column but \<open>id\<close> and \<open>created_at\<close>; otherwise the row is inserted. Either way the
  statement fails when another row holds the same channel id or the same TikTok id.
\<close>

definition accounts_clash :: "Account list \<Rightarrow> Account \<Rightarrow> bool" where
  "accounts_clash rows a =
     list_ex (\<lambda>r. acc_ID r \<noteq> acc_ID a \<and>
                  (acc_YouTubeChannelID r = acc_YouTubeChannelID a \<or>
                   acc_TikTokAccountID r = acc_TikTokAccountID a)) rows"

definition accounts_upsert :: "Account list \<Rightarrow> Account \<Rightarrow> Account list" where
  "accounts_upsert rows a =
     (if list_ex (\<lambda>r. acc_ID r = acc_ID a) rows
      then map (\<lambda>r. if acc_ID r = acc_ID a
                     then (account_row a)\<lparr>acc_CreatedAt := acc_CreatedAt r\<rparr> else r) rows
      else rows @ [account_row a])"

definition account_Save :: "env \<Rightarrow> world \<Rightarrow> Account \<Rightarrow> err option \<times> Account \<times> world" where
  "account_Save e w account =
     (case time_Now e w of (now, w1) \<Rightarrow>
      (case (if acc_ID account = ''''
             then (case uuid_NewString e w1 of (u, w2) \<Rightarrow>
                     (account\<lparr>acc_ID := u, acc_CreatedAt := now\<rparr>, w2))
             else (account, w1)) of (a1, w2) \<Rightarrow>
       (let a2 = a1\<lparr>acc_UpdatedAt := now\<rparr> in
        (case db_stmt e w2 of
           (Some er, w3) \<Rightarrow> (Some er, a2, w3)
         | (None, w3) \<Rightarrow>
             if accounts_clash (accounts w3) a2
             then (Some ''UNIQUE constraint failed: accounts'', a2, w3)
             else (None, a2, w3\<lparr>accounts := accounts_upsert (accounts w3) a2\<rparr>)))))"

definition UpdateLastChecked ::
  "env \<Rightarrow> world \<Rightarrow> string \<Rightarrow> string \<Rightarrow> time \<Rightarrow> err option \<times> world" where
  "UpdateLastChecked e w ident lastVideoID checkedAt =
     (case time_Now e w of (now, w1) \<Rightarrow>
      (case db_stmt e w1 of
         (Some er, w2) \<Rightarrow> (Some er, w2)
       | (None, w2) \<Rightarrow>
           (None, w2\<lparr>accounts :=
              map (\<lambda>r. if acc_ID r = ident
                        then r\<lparr>acc_LastVideoID := lastVideoID, acc_LastCheckedAt := checkedAt,
                               acc_UpdatedAt := now\<rparr>
                        else r) (accounts w2)\<rparr>)))"

section \<open>usecase.AccountManager\<close>

definition UpdateAccountMapping ::
  "env \<Rightarrow> world \<Rightarrow> string \<Rightarrow> string \<Rightarrow> string \<Rightarrow> string \<Rightarrow> bool option \<Rightarrow>
   (err + Account) \<times> world" where
  "UpdateAccountMapping e w accountID youtubeChannelID tiktokAccountID tiktokAccessToken isActive =
     (case GetByID e w accountID of
        (Inl er, w1) \<Rightarrow> (Inl (''failed to get account: '' @ er), w1)
      | (Inr None, w1) \<Rightarrow> (Inl (''account not found: '' @ accountID), w1)
      | (Inr (Some account), w1) \<Rightarrow>
          (let a1 = (if youtubeChannelID \<noteq> ''''
                     then account\<lparr>acc_YouTubeChannelID := youtubeChannelID\<rparr> else account);
               a2 = (if tiktokAccountID \<noteq> ''''
                     then a1\<lparr>acc_TikTokAccountID := tiktokAccountID\<rparr> else a1);
               a3 = (if tiktokAccessToken \<noteq> ''''
                     then a2\<lparr>acc_TikTokAccessToken := tiktokAccessToken\<rparr> else a2);
               a4 = (case isActive of Some b \<Rightarrow> a3\<lparr>acc_IsActive := b\<rparr> | None \<Rightarrow> a3)
           in (case time_Now e w1 of (now, w2) \<Rightarrow>
               (case account_Save e w2 (a4\<lparr>acc_UpdatedAt := now\<rparr>) of
                  (Some er, a5, w3) \<Rightarrow> (Inl (''failed to update account mapping: '' @ er), w3)
                | (None, a5, w3) \<Rightarrow> (Inr a5, w3)))))"

section \<open>sqlite.VideoRepository\<close>

text \<open>
  Table \<open>videos\<close>: \<open>id\<close> is the primary key, \<open>youtube_video_id\<close> is UNIQUE and
  \<open>account_id\<close> references \<open>accounts(id)\<close> (foreign keys are switched on when the
  database is opened). Every column a \<open>Video\<close> is written to reads back as it was written.
\<close>

definition GetByYouTubeID :: "env \<Rightarrow> world \<Rightarrow> string \<Rightarrow> (err + Video option) \<times> world" where
  "GetByYouTubeID e w youtubeID =
     (case db_stmt e w of
        (Some er, w1) \<Rightarrow> (Inl er, w1)
      | (None, w1) \<Rightarrow> (Inr (find (\<lambda>r. vid_YouTubeVideoID r = youtubeID) (videos w1)), w1))"



definition videos_clash :: "Video list \<Rightarrow> Video \<Rightarrow> bool" where
  "videos_clash rows v =
     list_ex (\<lambda>r. vid_ID r \<noteq> vid_ID v \<and> vid_YouTubeVideoID r = vid_YouTubeVideoID v) rows"

definition videos_upsert :: "Video list \<Rightarrow> Video \<Rightarrow> Video list" where
  "videos_upsert rows v =
     (if list_ex (\<lambda>r. vid_ID r = vid_ID v) rows
      then map (\<lambda>r. if vid_ID r = vid_ID v then v\<lparr>vid_CreatedAt := vid_CreatedAt r\<rparr> else r) rows
      else rows @ [v])"

text \<open>
  \<open>Save\<close> fills in the caller's struct (id, creation time, status, update time) before
  the statement runs, so the caller sees those values whether or not the statement fails.
  On a conflict on \<open>id\<close> the statement sets every column but \<open>id\<close> and
  \<open>created_at\<close> from the struct, \<open>status = excluded.status\<close> among them.
\<close>

definition video_Save :: "env \<Rightarrow> world \<Rightarrow> Video \<Rightarrow> err option \<times> Video \<times> world" where
  "video_Save e w video =
     (case time_Now e w of (now, w1) \<Rightarrow>
      (case (if vid_ID video = ''''
             then (case uuid_NewString e w1 of (u, w2) \<Rightarrow>
                     (video\<lparr>vid_ID := u, vid_CreatedAt := now\<rparr>, w2))
             else (video, w1)) of (v1, w2) \<Rightarrow>
       (let v2 = (if vid_Status v1 = '''' then v1\<lparr>vid_Status := VideoStatusPending\<rparr> else v1);
            v3 = v2\<lparr>vid_UpdatedAt := now\<rparr>
        in (case db_stmt e w2 of
              (Some er, w3) \<Rightarrow> (Some er, v3, w3)
            | (None, w3) \<Rightarrow>
                if videos_clash (videos w3) v3
                then (Some ''UNIQUE constraint failed: videos.youtube_video_id'', v3, w3)
                else if \<not> list_ex (\<lambda>a. acc_ID a = vid_AccountID v3) (accounts w3)
                then (Some ''FOREIGN KEY constraint failed'', v3, w3)
                else (None, v3, w3\<lparr>videos := videos_upsert (videos w3) v3,
                                      status_log := status_log w3 @ [(vid_ID v3, vid_Status v3)]\<rparr>)))))"

definition UpdateStatus ::
  "env \<Rightarrow> world \<Rightarrow> string \<Rightarrow> VideoStatus \<Rightarrow> string \<Rightarrow> err option \<times> world" where
  "UpdateStatus e w ident status errorMsg =
     (case time_Now e w of (now, w1) \<Rightarrow>
      (case db_stmt e w1 of
         (Some er, w2) \<Rightarrow> (Some er, w2)
       | (None, w2) \<Rightarrow>
           (None, w2\<lparr>videos :=
              map (\<lambda>r. if vid_ID r = ident
                        then r\<lparr>vid_Status := status, vid_ErrorMessage := errorMsg,
                               vid_UpdatedAt := now\<rparr>
                        else r) (videos w2),
              status_log :=
                (if list_ex (\<lambda>r. vid_ID r = ident) (videos w2)
                 then status_log w2 @ [(ident, status)] else status_log w2)\<rparr>)))"

definition UpdateFilePath :: "env \<Rightarrow> world \<Rightarrow> string \<Rightarrow> string \<Rightarrow> err option \<times> world" where
  "UpdateFilePath e w ident filePath =
     (case time_Now e w of (now, w1) \<Rightarrow>
      (case db_stmt e w1 of
         (Some er, w2) \<Rightarrow> (Some er, w2)
       | (None, w2) \<Rightarrow>
           (None, w2\<lparr>videos :=
              map (\<lambda>r. if vid_ID r = ident
                        then r\<lparr>vid_LocalFilePath := filePath, vid_UpdatedAt := now\<rparr>
                        else r) (videos w2)\<rparr>)))"

definition UpdateTikTokID :: "env \<Rightarrow> world \<Rightarrow> string \<Rightarrow> string \<Rightarrow> err option \<times> world" where
  "UpdateTikTokID e w ident tiktokID =
     (case time_Now e w of (now, w1) \<Rightarrow>
      (case db_stmt e w1 of
         (Some er, w2) \<Rightarrow> (Some er, w2)
       | (None, w2) \<Rightarrow>
           (None, w2\<lparr>videos :=
              map (\<lambda>r. if vid_ID r = ident
                        then r\<lparr>vid_TikTokVideoID := tiktokID, vid_UpdatedAt := now\<rparr>
                        else r) (videos w2)\<rparr>)))"

subsection \<open>The success path of the specification\<close>

text \<open>
  The order of the statuses along the success path pending, downloading, downloaded,
  uploading, completed; \<open>failed\<close> and any other string are off the path. A status
  regresses when the later observation stands earlier on the path than the first.
\<close>

definition success_path_rank :: "VideoStatus \<Rightarrow> nat option" where
  "success_path_rank s =
     (if s = VideoStatusPending then Some 0
      else if s = VideoStatusDownloading then Some 1
      else if s = VideoStatusDownloaded then Some 2
      else if s = VideoStatusUploading then Some 3
      else if s = VideoStatusCompleted then Some 4
      else None)"

definition regresses :: "VideoStatus \<Rightarrow> VideoStatus \<Rightarrow> bool" where
  "regresses first second =
     (case (success_path_rank first, success_path_rank second) of
        (Some m, Some n) \<Rightarrow> n < m
      | _ \<Rightarrow> False)"

section \<open>usecase.AccountMonitor\<close>

text \<open>
  The first loop of \<open>monitorAccount\<close>: one lookup per listed video, in order. A failed
  lookup is recorded and the loop goes on (\<open>continue\<close>); a video found in the store is
  passed over; a video not found is passed over when a bootstrap cutoff is set and the
  video was published before it, and is accepted otherwise, with the account's id.
\<close>

fun scan_videos ::
  "env \<Rightarrow> world \<Rightarrow> time \<Rightarrow> string \<Rightarrow> Video list \<Rightarrow> Video list \<times> err list \<times> world" where
  "scan_videos e w bootstrapCutoff accountID [] = ([], [], w)"
| "scan_videos e w bootstrapCutoff accountID (video # rest) =
     (case GetByYouTubeID e w (vid_YouTubeVideoID video) of
        (Inl er, w1) \<Rightarrow>
          (case scan_videos e w1 bootstrapCutoff accountID rest of
             (newVideos, errs, w2) \<Rightarrow> (newVideos, er # errs, w2))
      | (Inr (Some existing), w1) \<Rightarrow> scan_videos e w1 bootstrapCutoff accountID rest
      | (Inr None, w1) \<Rightarrow>
          if \<not> IsZero bootstrapCutoff \<and> Before (vid_PublishedAt video) bootstrapCutoff
          then scan_videos e w1 bootstrapCutoff accountID rest
          else (case scan_videos e w1 bootstrapCutoff accountID rest of
                  (newVideos, errs, w2) \<Rightarrow>
                    (video\<lparr>vid_AccountID := accountID\<rparr> # newVideos, errs, w2)))"

text \<open>The second loop: one \<open>Save\<close> per accepted video; a failure is recorded and the loop goes on.\<close>

fun save_videos :: "env \<Rightarrow> world \<Rightarrow> Video list \<Rightarrow> Video list \<times> err list \<times> world" where
  "save_videos e w [] = ([], [], w)"
| "save_videos e w (video # rest) =
     (case video_Save e w video of
        (Some er, v, w1) \<Rightarrow>
          (case save_videos e w1 rest of
             (persistedVideos, errs, w2) \<Rightarrow> (persistedVideos, er # errs, w2))
      | (None, v, w1) \<Rightarrow>
          (case save_videos e w1 rest of
             (persistedVideos, errs, w2) \<Rightarrow> (v # persistedVideos, errs, w2)))"

text \<open>
  What \<open>monitorAccount\<close> returns, with the values its locals \<open>newVideos\<close>,
  \<open>persistedVideos\<close> and \<open>storageErrors\<close> hold at the return (empty when the listing
  failed), and the videos handed to \<open>launchImmediateProcessing\<close>.
\<close>

record monitor_result =
  mr_err :: "err option"
  mr_newVideos :: "Video list"
  mr_persistedVideos :: "Video list"
  mr_storageErrors :: "err list"
  mr_launched :: "Video list"

definition monitorAccount :: "env \<Rightarrow> world \<Rightarrow> bool \<Rightarrow> Account \<Rightarrow> monitor_result \<times> world" where
  "monitorAccount e w hasVideoProcessor account =
     (case (if IsZero (acc_LastCheckedAt account)
            then (case time_Now e w of (now, w1) \<Rightarrow> (now - 24 * Hour, w1))
            else (0, w)) of (bootstrapCutoff, w1) \<Rightarrow>
      (case ext (GetLatestVideosCall (acc_YouTubeChannelID account) 50) w1 of (n, w2) \<Rightarrow>
       (case youtube_resp e n (acc_YouTubeChannelID account) of
          Inl er \<Rightarrow>
            (\<lparr>mr_err = Some (''failed to get latest videos for YouTube channel '' @
                              acc_YouTubeChannelID account @ '' (TikTok account '' @
                              acc_TikTokAccountID account @ ''): '' @ er),
              mr_newVideos = [], mr_persistedVideos = [], mr_storageErrors = [],
              mr_launched = []\<rparr>, w2)
        | Inr listing \<Rightarrow>
            (case scan_videos e w2 bootstrapCutoff (acc_ID account) listing of
               (newVideos, errs1, w3) \<Rightarrow>
             (case save_videos e w3
                     (if length newVideos > 1 then sort_Slice e newVideos else newVideos) of
                (persistedVideos, errs2, w4) \<Rightarrow>
              (let lastVideoID =
                     (case persistedVideos of
                        [] \<Rightarrow> acc_LastVideoID account
                      | v # _ \<Rightarrow> vid_YouTubeVideoID v);
                   result = \<lparr>mr_err = None, mr_newVideos = newVideos,
                             mr_persistedVideos = persistedVideos,
                             mr_storageErrors = errs1 @ errs2, mr_launched = []\<rparr>
               in if errs1 @ errs2 \<noteq> []
                  then (result\<lparr>mr_err := Some (''storage errors occurred while processing account '' @
                                               acc_ID account)\<rparr>, w4)
                  else (case time_Now e w4 of (now, w5) \<Rightarrow>
                        (case UpdateLastChecked e w5 (acc_ID account) lastVideoID now of
                           (Some er, w6) \<Rightarrow>
                             (result\<lparr>mr_err := Some (''failed to update last checked: '' @ er)\<rparr>, w6)
                         | (None, w6) \<Rightarrow>
                             (result\<lparr>mr_launched :=
                                       (if hasVideoProcessor then persistedVideos else [])\<rparr>,
                              w6)))))))))"

text \<open>
  What \<open>sort.Slice\<close> with the comparison \<open>PublishedAt.After\<close> guarantees: the same
  videos, none published after one that stands before it.
\<close>

definition sorts_newest_first :: "(Video list \<Rightarrow> Video list) \<Rightarrow> bool" where
  "sorts_newest_first srt =
     (\<forall>xs. mset (srt xs) = mset xs \<and>
           sorted_wrt (\<lambda>a b. \<not> After (vid_PublishedAt b) (vid_PublishedAt a)) (srt xs))"

section \<open>config.Config\<close>

record AccountBootstrap =
  bs_YouTubeChannelID :: string
  bs_TikTokAccountID :: string
  bs_TikTokAccessToken :: string
  bs_IsActive :: "bool option"

record Config =
  TikTokAPIKey :: string
  TikTokRedirectURI :: string
  TikTokEnableWeb :: bool
  MaxConcurrentDownloads :: int
  MaxConcurrentUploads :: int
  WorkerPoolSize :: int
  BootstrapAccounts :: "AccountBootstrap list"

section \<open>tiktok.Service\<close>

text \<open>
  \<open>strconv\<close>'s decimal form of an integer, for the status code in an error message.
\<close>

fun string_of_nat :: "nat \<Rightarrow> string" where
  "string_of_nat n =
     (if n < 10 then [char_of (48 + n)]
      else string_of_nat (n div 10) @ [char_of (48 + n mod 10)])"

declare string_of_nat.simps [simp del]

definition itoa :: "int \<Rightarrow> string" where
  "itoa i = (if i < 0 then ''-'' @ string_of_nat (nat (- i)) else string_of_nat (nat i))"

text \<open>The end of \<open>publishVideo\<close>, from the status check on.\<close>

definition publishVideo_result :: "publish_response \<Rightarrow> err + string" where
  "publishVideo_result resp =
     (if pub_StatusCode resp \<noteq> 200
      then Inl (''publish failed with status '' @ itoa (pub_StatusCode resp) @ '': '' @ pub_Body resp)
      else if pub_ErrorCode resp \<noteq> ''''
      then Inl (''TikTok API error: '' @ pub_ErrorCode resp @ '' - '' @ pub_ErrorMessage resp)
      else Inr (pub_VideoID resp))"

text \<open>
  \<open>UploadVideo\<close>: the three checks of the request, then the network. The oracle
  \<open>upload_resp\<close> stands for everything from \<open>os.Stat\<close> to the decoding of the
  publish answer: \<open>Inl\<close> is the error \<open>UploadVideo\<close> returns when a step before
  that fails, \<open>Inr\<close> the decoded publish answer.
\<close>

definition tiktok_UploadVideo :: "env \<Rightarrow> world \<Rightarrow> UploadRequest \<Rightarrow> (err + string) \<times> world" where
  "tiktok_UploadVideo e w req =
     (if req_AccessToken req = '''' then (Inl ''access token is required'', w)
      else if req_OpenID req = '''' then (Inl ''open_id is required for upload'', w)
      else if req_VideoPath req = '''' then (Inl ''video path is required for upload'', w)
      else (case ext (UploadVideoCall req) w of (n, w1) \<Rightarrow>
            (case upload_resp e n req of
               Inl er \<Rightarrow> (Inl er, w1)
             | Inr resp \<Rightarrow>
                 (case publishVideo_result resp of
                    Inl er \<Rightarrow> (Inl (''failed to publish video: '' @ er), w1)
                  | Inr videoID \<Rightarrow> (Inr videoID, w1)))))"

section \<open>usecase.VideoProcessor\<close>

subsection \<open>The authorize URL\<close>

text \<open>
  \<open>url.QueryEscape\<close> of Go's standard library: letters, digits and \<open>- _ . ~\<close> stay,
  a space becomes \<open>+\<close>, every other byte becomes \<open>%\<close> and two upper-case hex digits.
\<close>

definition shouldEscape :: "char \<Rightarrow> bool" where
  "shouldEscape c =
     (let n = (of_char c :: nat)
      in \<not> ((97 \<le> n \<and> n \<le> 122) \<or> (65 \<le> n \<and> n \<le> 90) \<or> (48 \<le> n \<and> n \<le> 57) \<or>
            c = CHR ''-'' \<or> c = CHR ''_'' \<or> c = CHR ''.'' \<or> c = CHR ''~''))"

definition upperhex :: "nat \<Rightarrow> char" where
  "upperhex n = ''0123456789ABCDEF'' ! n"

definition QueryEscape :: "string \<Rightarrow> string" where
  "QueryEscape s =
     concat (map (\<lambda>c. if \<not> shouldEscape c then [c]
                       else if c = CHR '' '' then ''+''
                       else [CHR ''%'', upperhex ((of_char c :: nat) div 16),
                             upperhex ((of_char c :: nat) mod 16)]) s)"

definition promptManualAuthorization :: "Config \<Rightarrow> string \<Rightarrow> string" where
  "promptManualAuthorization cfg accountID =
     ''https://www.tiktok.com/v2/auth/authorize?client_key='' @ QueryEscape (TikTokAPIKey cfg) @
     ''&scope='' @ QueryEscape ''user.info.basic,video.upload,video.publish'' @
     ''&response_type=code&redirect_uri='' @ QueryEscape (TikTokRedirectURI cfg) @
     ''&state='' @ QueryEscape ''12345''"

subsection \<open>downloadVideo\<close>

definition downloadVideo :: "env \<Rightarrow> world \<Rightarrow> Video \<Rightarrow> err option \<times> Video \<times> world" where
  "downloadVideo e w video =
     (case UpdateStatus e w (vid_ID video) VideoStatusDownloading '''' of
        (Some er, w1) \<Rightarrow> (Some er, video, w1)
      | (None, w1) \<Rightarrow>
          (case ext (DownloadVideoCall (vid_YouTubeVideoID video)) w1 of (n, w2) \<Rightarrow>
           (case download_resp e n (vid_YouTubeVideoID video) of
              Inl er \<Rightarrow> (Some (''download failed: '' @ er), video, w2)
            | Inr filePath \<Rightarrow>
                (case UpdateFilePath e w2 (vid_ID video) filePath of
                   (Some er, w3) \<Rightarrow> (Some er, video, w3)
                 | (None, w3) \<Rightarrow>
                     (case UpdateStatus e w3 (vid_ID video) VideoStatusDownloaded '''' of
                        (Some er, w4) \<Rightarrow> (Some er, video\<lparr>vid_LocalFilePath := filePath\<rparr>, w4)
                      | (None, w4) \<Rightarrow> (None, video\<lparr>vid_LocalFilePath := filePath\<rparr>, w4))))))"

subsection \<open>uploadVideo\<close>

text \<open>
  The block of \<open>uploadVideo\<close> under \<open>if !p.config.TikTokEnableWeb\<close>: it returns the
  error of \<open>uploadVideo\<close>, or the account as the upload will use it.
\<close>

definition uploadVideo_validate ::
  "env \<Rightarrow> world \<Rightarrow> Config \<Rightarrow> Account \<Rightarrow> (err + Account) \<times> world" where
  "uploadVideo_validate e w cfg account =
     (if TikTokEnableWeb cfg then (Inr account, w)
      else if acc_TikTokAccessToken account = ''''
      then (Inl (''TikTok access token not configured for account '' @ acc_ID account @
                 ''. Re-authorize via '' @ promptManualAuthorization cfg (acc_ID account) @
                 '' and exchange the returned code for a token''), w)
      else (case ext (VerifyAccessTokenCall (acc_TikTokAccessToken account)) w of (n, w1) \<Rightarrow>
            (case verify_resp e n (acc_TikTokAccessToken account) of
               Inl er \<Rightarrow> (Inl (''failed to verify access token: '' @ er), w1)
             | Inr isValid \<Rightarrow>
                 if isValid then (Inr account, w1)
                 else if acc_TikTokRefreshToken account \<noteq> ''''
                 then (case ext (RefreshAccessTokenCall (acc_TikTokRefreshToken account)) w1 of
                         (m, w2) \<Rightarrow>
                       (case refresh_resp e m (acc_TikTokRefreshToken account) of
                          Inl er \<Rightarrow>
                            (Inl (''TikTok access token is invalid and refresh failed for account '' @
                                  acc_ID account @ '': '' @ er @ ''. Please update the token''), w2)
                        | Inr tokenResp \<Rightarrow>
                            (let a1 = account\<lparr>acc_TikTokAccessToken := tok_AccessToken tokenResp\<rparr>;
                                 a2 = (if tok_RefreshToken tokenResp \<noteq> ''''
                                       then a1\<lparr>acc_TikTokRefreshToken := tok_RefreshToken tokenResp\<rparr>
                                       else a1)
                             in (case (if tok_ExpiresIn tokenResp > 0
                                       then (case time_Now e w2 of (now, w3) \<Rightarrow>
                                               (a2\<lparr>acc_TikTokTokenExpiresAt :=
                                                      Some (now + seconds_Duration (tok_ExpiresIn tokenResp))\<rparr>,
                                                w3))
                                       else (a2, w2)) of (a3, w3) \<Rightarrow>
                                 (case account_Save e w3 a3 of
                                    (Some er, a4, w4) \<Rightarrow>
                                      (Inl (''failed to save refreshed token: '' @ er), w4)
                                  | (None, a4, w4) \<Rightarrow> (Inr a4, w4))))))
                 else (Inl (''TikTok access token is invalid or expired for account '' @
                            acc_ID account @ '' and no refresh token available. Re-authorize via '' @
                            promptManualAuthorization cfg (acc_ID account) @
                            '' and exchange the returned code for a new token''), w1))))"

text \<open>The rest of \<open>uploadVideo\<close>, from the update of the status to \<open>uploading\<close> on.\<close>

definition uploadVideo_upload :: "env \<Rightarrow> world \<Rightarrow> Video \<Rightarrow> Account \<Rightarrow> err option \<times> world" where
  "uploadVideo_upload e w video account =
     (case UpdateStatus e w (vid_ID video) VideoStatusUploading '''' of
        (Some er, w1) \<Rightarrow> (Some er, w1)
      | (None, w1) \<Rightarrow>
          (case tiktok_UploadVideo e w1
                  \<lparr>req_AccessToken = acc_TikTokAccessToken account,
                   req_OpenID = acc_TikTokAccountID account,
                   req_VideoPath = vid_LocalFilePath video,
                   req_Title = vid_Title video,
                   req_Description = vid_Description video,
                   req_PrivacyLevel = ''PUBLIC_TO_EVERYONE''\<rparr> of
             (Inl er, w2) \<Rightarrow> (Some (''upload failed: '' @ er), w2)
           | (Inr tiktokVideoID, w2) \<Rightarrow> UpdateTikTokID e w2 (vid_ID video) tiktokVideoID))"

definition uploadVideo :: "env \<Rightarrow> world \<Rightarrow> Config \<Rightarrow> Video \<Rightarrow> err option \<times> world" where
  "uploadVideo e w cfg video =
     (case GetByID e w (vid_AccountID video) of
        (Inl er, w1) \<Rightarrow> (Some (''failed to get account mapping: '' @ er), w1)
      | (Inr None, w1) \<Rightarrow>
          (Some (''account mapping not found for video '' @ vid_ID video @
                 '' (account ID: '' @ vid_AccountID video @ '')''), w1)
      | (Inr (Some account), w1) \<Rightarrow>
          if acc_TikTokAccountID account = ''''
          then (Some (''TikTok account ID not configured for account '' @ acc_ID account), w1)
          else (case uploadVideo_validate e w1 cfg account of
                  (Inl er, w2) \<Rightarrow> (Some er, w2)
                | (Inr account', w2) \<Rightarrow> uploadVideo_upload e w2 video account'))"

subsection \<open>processVideo\<close>

definition processVideo :: "env \<Rightarrow> world \<Rightarrow> Config \<Rightarrow> Video \<Rightarrow> err option \<times> world" where
  "processVideo e w cfg video =
     (case downloadVideo e w video of
        (Some er, v1, w1) \<Rightarrow>
          (case UpdateStatus e w1 (vid_ID v1) VideoStatusFailed er of
             (ignored, w2) \<Rightarrow> (Some er, w2))
      | (None, v1, w1) \<Rightarrow>
          (case uploadVideo e w1 cfg v1 of
             (Some er, w2) \<Rightarrow>
               (case UpdateStatus e w2 (vid_ID v1) VideoStatusFailed er of
                  (ignored, w3) \<Rightarrow> (Some er, w3))
           | (None, w2) \<Rightarrow> UpdateStatus e w2 (vid_ID v1) VideoStatusCompleted ''''))"

subsection \<open>ProcessPendingVideos\<close>










section \<open>Bootstrap of the configured account mappings\<close>

subsection \<open>CreateAccountMapping and DeactivateAccountMapping\<close>

definition CreateAccountMapping ::
  "env \<Rightarrow> world \<Rightarrow> string \<Rightarrow> string \<Rightarrow> string \<Rightarrow> (err + Account) \<times> world" where
  "CreateAccountMapping e w youtubeChannelID tiktokAccountID tiktokAccessToken =
     (if youtubeChannelID = [] then (Inl ''youtube channel ID is required'', w)
      else if tiktokAccountID = [] then (Inl ''tiktok account ID is required'', w)
      else if tiktokAccessToken = [] then (Inl ''tiktok access token is required'', w)
      else
       (case GetByYouTubeAndTikTok e w youtubeChannelID tiktokAccountID of
          (Inl er, w1) \<Rightarrow> (Inl (''failed to check existing mapping: '' @ er), w1)
        | (Inr (Some existing), w1) \<Rightarrow>
            (Inl (''mapping already exists for YouTube channel '' @ youtubeChannelID @
                  '' and TikTok account '' @ tiktokAccountID), w1)
        | (Inr None, w1) \<Rightarrow>
       (case GetByYouTubeChannelID e w1 youtubeChannelID of
          (Inl er, w2) \<Rightarrow> (Inl (''failed to check YouTube channel mapping: '' @ er), w2)
        | (Inr (Some existingByYouTube), w2) \<Rightarrow>
            (Inl (''YouTube channel '' @ youtubeChannelID @
                  '' is already mapped to TikTok account '' @
                  acc_TikTokAccountID existingByYouTube), w2)
        | (Inr None, w2) \<Rightarrow>
       (case GetByTikTokAccountID e w2 tiktokAccountID of
          (Inl er, w3) \<Rightarrow> (Inl (''failed to check TikTok account mapping: '' @ er), w3)
        | (Inr (Some existingByTikTok), w3) \<Rightarrow>
            (Inl (''TikTok account '' @ tiktokAccountID @
                  '' is already mapped to YouTube channel '' @
                  acc_YouTubeChannelID existingByTikTok), w3)
        | (Inr None, w3) \<Rightarrow>
       (case time_Now e w3 of (created, w4) \<Rightarrow>
       (case time_Now e w4 of (updated, w5) \<Rightarrow>
       (case account_Save e w5
               \<lparr>acc_ID = [], acc_YouTubeChannelID = youtubeChannelID,
                acc_TikTokAccountID = tiktokAccountID,
                acc_TikTokAccessToken = tiktokAccessToken,
                acc_TikTokRefreshToken = [], acc_TikTokTokenExpiresAt = None,
                acc_LastCheckedAt = 0, acc_LastVideoID = [], acc_IsActive = True,
                acc_CreatedAt = created, acc_UpdatedAt = updated\<rparr> of
          (Some er, account, w6) \<Rightarrow> (Inl (''failed to save account mapping: '' @ er), w6)
        | (None, account, w6) \<Rightarrow> (Inr account, w6))))))))"

definition DeactivateAccountMapping :: "env \<Rightarrow> world \<Rightarrow> string \<Rightarrow> err option \<times> world" where
  "DeactivateAccountMapping e w accountID =
     (case GetByID e w accountID of
        (Inl er, w1) \<Rightarrow> (Some (''failed to get account: '' @ er), w1)
      | (Inr None, w1) \<Rightarrow> (Some (''account not found: '' @ accountID), w1)
      | (Inr (Some account), w1) \<Rightarrow>
          (case time_Now e w1 of (now, w2) \<Rightarrow>
           (case account_Save e w2 (account\<lparr>acc_IsActive := False, acc_UpdatedAt := now\<rparr>) of
              (r, a, w3) \<Rightarrow> (r, w3))))"

subsection \<open>bootstrapAccounts\<close>

definition placeholder_token :: string where
  "placeholder_token = ''PLACEHOLDER_TOKEN_UPDATE_VIA_EXCHANGE_CODE_API''"

text \<open>
  The token that the body of the loop passes to \<open>UpdateAccountMapping\<close> for a stored
  account, with the flag it sets in \<open>needsUpdate\<close>: the configured token only where the
  stored one is empty; the two other branches log and leave \<open>token\<close> empty.
\<close>

definition bootstrap_token :: "AccountBootstrap \<Rightarrow> Account \<Rightarrow> string \<times> bool" where
  "bootstrap_token acc existing =
     (if bs_TikTokAccessToken acc \<noteq> [] \<and>
         bs_TikTokAccessToken acc \<noteq> acc_TikTokAccessToken existing
      then (if acc_TikTokAccessToken existing = [] then (bs_TikTokAccessToken acc, True)
            else if acc_TikTokRefreshToken existing = [] then ([], False)
            else ([], False))
      else ([], False))"

text \<open>
  One round of the loop of \<open>bootstrapAccounts\<close>; what it logs is left out, so a round
  that fails returns the state it has reached.
\<close>

definition bootstrap_entry :: "env \<Rightarrow> world \<Rightarrow> AccountBootstrap \<Rightarrow> world" where
  "bootstrap_entry e w acc =
     (if bs_YouTubeChannelID acc = [] \<or> bs_TikTokAccountID acc = [] then w
      else
       (case (if bs_TikTokAccountID acc \<noteq> []
              then GetByTikTokAccountID e w (bs_TikTokAccountID acc)
              else (Inr None, w)) of
          (Inl er, w1) \<Rightarrow> w1
        | (Inr byTikTok, w1) \<Rightarrow>
       (case (if byTikTok = None \<and> bs_YouTubeChannelID acc \<noteq> []
              then GetByYouTubeChannelID e w1 (bs_YouTubeChannelID acc)
              else (Inr byTikTok, w1)) of
          (Inl er, w2) \<Rightarrow> w2
        | (Inr None, w2) \<Rightarrow>
            (let token = (if bs_TikTokAccessToken acc = [] then placeholder_token
                          else bs_TikTokAccessToken acc)
             in (case CreateAccountMapping e w2 (bs_YouTubeChannelID acc)
                        (bs_TikTokAccountID acc) token of
                   (Inl er, w3) \<Rightarrow> w3
                 | (Inr account, w3) \<Rightarrow>
                     if bs_IsActive acc = Some False
                     then snd (DeactivateAccountMapping e w3 (acc_ID account))
                     else w3))
        | (Inr (Some existing), w2) \<Rightarrow>
            (let (youtubeID, n1) =
                   (if bs_YouTubeChannelID acc \<noteq> [] \<and>
                       bs_YouTubeChannelID acc \<noteq> acc_YouTubeChannelID existing
                    then (bs_YouTubeChannelID acc, True) else ([], False));
                 (tiktokID, n2) =
                   (if bs_TikTokAccountID acc \<noteq> [] \<and>
                       bs_TikTokAccountID acc \<noteq> acc_TikTokAccountID existing
                    then (bs_TikTokAccountID acc, True) else ([], n1));
                 (token, n3) =
                   (case bootstrap_token acc existing of
                      (k, changed) \<Rightarrow> (k, if changed then True else n2));
                 (activePtr, needsUpdate) =
                   (case bs_IsActive acc of
                      None \<Rightarrow> (None, n3)
                    | Some b \<Rightarrow> if acc_IsActive existing \<noteq> b then (Some b, True)
                                else (None, n3))
             in if needsUpdate
                then snd (UpdateAccountMapping e w2 (acc_ID existing)
                            youtubeID tiktokID token activePtr)
                else w2))))"

definition bootstrapAccounts :: "env \<Rightarrow> world \<Rightarrow> Config \<Rightarrow> world" where
  "bootstrapAccounts e w cfg =
     (if length (BootstrapAccounts cfg) = 0 then w
      else fold (\<lambda>acc w'. bootstrap_entry e w' acc) (BootstrapAccounts cfg) w)"


section \<open>Admission of the processing goroutines\<close>

text \<open>
  The goroutines that call \<open>processVideo\<close> and the two channels that admit them:
  \<open>AccountMonitor.processingLimiter\<close>, made by \<open>NewAccountMonitor\<close>, for the goroutines
  of \<open>launchImmediateProcessing\<close>, and \<open>VideoProcessor.workerPool\<close>, made by
  \<open>NewVideoProcessor\<close>, for the goroutines of \<open>ProcessPendingVideos\<close>. A channel is
  the number of values it buffers.
\<close>

text \<open>
  A goroutine of \<open>launchImmediateProcessing\<close>: before \<open>acquireProcessingSlot\<close> returns;
  inside \<open>ProcessVideo\<close>, with the deadline of its context; returned; or given up
  because the base context was done first.
\<close>

datatype phase = Waiting | Running time | Finished | Skipped

text \<open>A goroutine of a batch: before the send on \<open>workerPool\<close>, inside \<open>processVideo\<close>, returned.\<close>

datatype batch_phase = BatchWaiting | BatchRunning | BatchFinished

record runtime =
  processingLimiter :: nat
  workerPool :: nat
  immediate :: "phase list"
  batch :: "batch_phase list"
  wall :: time
  baseDone :: bool

definition limiterSize :: "Config \<Rightarrow> int" where
  "limiterSize cfg = (if WorkerPoolSize cfg \<le> 0 then 1 else WorkerPoolSize cfg)"

text \<open>
  \<open>context.WithTimeout(baseCtx, 30*time.Minute)\<close> at the time \<open>t\<close>, for a base context
  without a deadline (\<open>context.Background()\<close>, which \<open>NewAccountMonitor\<close> installs): the
  context of the scheduler's job is not an argument.
\<close>

definition processCtx_deadline :: "time \<Rightarrow> time" where
  "processCtx_deadline t = t + 30 * Minute"

definition is_running :: "phase \<Rightarrow> bool" where
  "is_running p = (case p of Running d \<Rightarrow> True | _ \<Rightarrow> False)"

text \<open>
  What can happen next. \<open>None\<close> is an event that cannot happen in the state: a send on a
  full channel and a receive on an empty one block, and the clock does not go back.
\<close>

datatype event =
    LaunchImmediate
  | AcquireProcessingSlot nat
  | SkipImmediate nat
  | ImmediateReturns nat
  | SpawnBatch
  | AcquireWorker nat
  | BatchReturns nat
  | Advance time
  | CancelBase

definition step :: "Config \<Rightarrow> runtime \<Rightarrow> event \<Rightarrow> runtime option" where
  "step cfg s ev =
     (case ev of
        LaunchImmediate \<Rightarrow> Some (s\<lparr>immediate := immediate s @ [Waiting]\<rparr>)
      | AcquireProcessingSlot i \<Rightarrow>
          if i < length (immediate s) \<and> immediate s ! i = Waiting \<and>
             int (processingLimiter s) < limiterSize cfg
          then Some (s\<lparr>processingLimiter := Suc (processingLimiter s),
                       immediate := (immediate s)[i := Running (processCtx_deadline (wall s))]\<rparr>)
          else None
      | SkipImmediate i \<Rightarrow>
          if i < length (immediate s) \<and> immediate s ! i = Waiting \<and> baseDone s
          then Some (s\<lparr>immediate := (immediate s)[i := Skipped]\<rparr>)
          else None
      | ImmediateReturns i \<Rightarrow>
          if i < length (immediate s) \<and> is_running (immediate s ! i)
          then Some (s\<lparr>processingLimiter :=
                         (if processingLimiter s > 0 then processingLimiter s - 1
                          else processingLimiter s),
                       immediate := (immediate s)[i := Finished]\<rparr>)
          else None
      | SpawnBatch \<Rightarrow> Some (s\<lparr>batch := batch s @ [BatchWaiting]\<rparr>)
      | AcquireWorker i \<Rightarrow>
          if i < length (batch s) \<and> batch s ! i = BatchWaiting \<and>
             int (workerPool s) < WorkerPoolSize cfg
          then Some (s\<lparr>workerPool := Suc (workerPool s),
                       batch := (batch s)[i := BatchRunning]\<rparr>)
          else None
      | BatchReturns i \<Rightarrow>
          if i < length (batch s) \<and> batch s ! i = BatchRunning \<and> workerPool s > 0
          then Some (s\<lparr>workerPool := workerPool s - 1,
                       batch := (batch s)[i := BatchFinished]\<rparr>)
          else None
      | Advance d \<Rightarrow> if 0 \<le> d then Some (s\<lparr>wall := wall s + d\<rparr>) else None
      | CancelBase \<Rightarrow> Some (s\<lparr>baseDone := True\<rparr>))"

fun run :: "Config \<Rightarrow> runtime \<Rightarrow> event list \<Rightarrow> runtime option" where
  "run cfg s [] = Some s"
| "run cfg s (ev # evs) = (case step cfg s ev of None \<Rightarrow> None | Some s' \<Rightarrow> run cfg s' evs)"

text \<open>The state after the two constructors, at the time \<open>t\<close>.\<close>

definition started :: "time \<Rightarrow> runtime" where
  "started t = \<lparr>processingLimiter = 0, workerPool = 0, immediate = [], batch = [],
                wall = t, baseDone = False\<rparr>"

definition immediate_running :: "runtime \<Rightarrow> nat" where
  "immediate_running s = length (filter is_running (immediate s))"

definition batch_running :: "runtime \<Rightarrow> nat" where
  "batch_running s = length (filter (\<lambda>p. p = BatchRunning) (batch s))"

text \<open>
  The state of the channels agrees with the goroutines: each channel buffers one value for
  each goroutine that runs behind it, within its capacity, and the deadline of a running
  immediate goroutine is at most 30 minutes ahead.
\<close>

definition admitted :: "Config \<Rightarrow> runtime \<Rightarrow> bool" where
  "admitted cfg s =
     (processingLimiter s = immediate_running s \<and> workerPool s = batch_running s \<and>
      int (immediate_running s) \<le> limiterSize cfg \<and>
      int (batch_running s) \<le> max 0 (WorkerPoolSize cfg) \<and>
      (\<forall>d. Running d \<in> set (immediate s) \<longrightarrow> d \<le> processCtx_deadline (wall s)))"


section \<open>Example environments\<close>

text \<open>
  An environment without faults: the clock advances by a second per reading, every SQL
  statement reaches the database, and the outside services answer as the named fields
  say. The examples below start from it.
\<close>

definition env0 :: env where
  "env0 = \<lparr>clock = (\<lambda>n. 63900000000000000000 + int n * Second),
           db_err = (\<lambda>n. None),
           new_uuid = (\<lambda>n. ''uuid-'' @ replicate n CHR ''x''),
           verify_resp = (\<lambda>n tok. Inr True),
           refresh_resp = (\<lambda>n tok. Inl ''token refresh failed with status 400: {}''),
           download_resp = (\<lambda>n v. Inr (''./downloads/'' @ v @ ''.mp4'')),
           upload_resp = (\<lambda>n r. Inr \<lparr>pub_StatusCode = 200, pub_Body = ''{data:{video_id:7301}}'',
                                        pub_VideoID = ''7301'', pub_ErrorCode = [],
                                        pub_ErrorMessage = []\<rparr>),
           youtube_resp = (\<lambda>n c. Inr []),
           sort_Slice = sort_key (\<lambda>v. - vid_PublishedAt v),
           ctx_err = (\<lambda>n. None)\<rparr>"

definition acct0 :: Account where
  "acct0 = \<lparr>acc_ID = ''a1'', acc_YouTubeChannelID = ''UCabc'', acc_TikTokAccountID = ''ttk123'',
             acc_TikTokAccessToken = ''T0'', acc_TikTokRefreshToken = ''R0'',
             acc_TikTokTokenExpiresAt = None, acc_LastCheckedAt = 0, acc_LastVideoID = '''',
             acc_IsActive = True, acc_CreatedAt = 63800000000000000000,
             acc_UpdatedAt = 63800000000000000000\<rparr>"

definition world0 :: world where
  "world0 = \<lparr>accounts = [acct0], videos = [], ticks = 0, db_ops = 0, uuids = 0, calls = [],
              status_log = []\<rparr>"

definition video0 :: Video where
  "video0 = \<lparr>vid_ID = ''yt1'', vid_YouTubeVideoID = ''yt1'', vid_AccountID = ''a1'',
              vid_Title = ''title'', vid_Description = ''text'', vid_ThumbnailURL = '''',
              vid_VideoURL = '''', vid_LocalFilePath = '''', vid_Status = VideoStatusPending,
              vid_ErrorMessage = '''', vid_TikTokVideoID = '''',
              vid_CreatedAt = 63890000000000000000, vid_UpdatedAt = 63890000000000000000,
              vid_PublishedAt = 63889000000000000000\<rparr>"

definition video_done :: Video where
  "video_done = video0\<lparr>vid_LocalFilePath := ''./downloads/yt1.mp4'',
                        vid_Status := VideoStatusCompleted, vid_TikTokVideoID := ''7301''\<rparr>"

definition world_done :: world where
  "world_done = world0\<lparr>videos := [video_done]\<rparr>"

text \<open>
  A first run over three listed videos, published one hour, 36 hours and 12 hours before
  the first clock reading; in \<open>env1_fault\<close> the second SQL statement fails.
\<close>

definition listed :: "string \<Rightarrow> time \<Rightarrow> Video" where
  "listed v t = \<lparr>vid_ID = v, vid_YouTubeVideoID = v, vid_AccountID = [],
                 vid_Title = ''title'', vid_Description = ''text'', vid_ThumbnailURL = [],
                 vid_VideoURL = [], vid_LocalFilePath = [], vid_Status = VideoStatusPending,
                 vid_ErrorMessage = [], vid_TikTokVideoID = [],
                 vid_CreatedAt = 63899999999000000000, vid_UpdatedAt = 63899999999000000000,
                 vid_PublishedAt = t\<rparr>"

definition listing1 :: "Video list" where
  "listing1 = [listed ''id_1h'' 63899996400000000000,
               listed ''id_36h'' 63899870400000000000,
               listed ''id_12h'' 63899956800000000000]"

definition env1 :: env where
  "env1 = env0\<lparr>youtube_resp := (\<lambda>n c. Inr listing1)\<rparr>"


text \<open>
  A configuration, a store holding one pending video of the account, and a sink whose
  publish answer is HTTP 200 with a JSON body that carries neither an error nor a video id.
\<close>

definition cfg0 :: Config where
  "cfg0 = \<lparr>TikTokAPIKey = ''awx123key'',
            TikTokRedirectURI = ''http://localhost:8080/api/tiktok/callback'',
            TikTokEnableWeb = False, MaxConcurrentDownloads = 5, MaxConcurrentUploads = 3,
            WorkerPoolSize = 10, BootstrapAccounts = []\<rparr>"

definition world_pending :: world where
  "world_pending = world0\<lparr>videos := [video0]\<rparr>"

definition env_no_video_id :: env where
  "env_no_video_id =
     env0\<lparr>upload_resp := (\<lambda>n r. Inr \<lparr>pub_StatusCode = 200, pub_Body = ''{}'', pub_VideoID = [],
                                        pub_ErrorCode = [], pub_ErrorMessage = []\<rparr>)\<rparr>"


definition acct_placeholder :: Account where
  "acct_placeholder =
     acct0\<lparr>acc_TikTokAccessToken := ''PLACEHOLDER_TOKEN_UPDATE_VIA_EXCHANGE_CODE_API'',
            acc_TikTokRefreshToken := []\<rparr>"

definition world_placeholder :: world where
  "world_placeholder = world0\<lparr>accounts := [acct_placeholder], videos := [video0]\<rparr>"

definition env_unreachable :: env where
  "env_unreachable =
     env0\<lparr>verify_resp := (\<lambda>n tok. Inl ''Get https://open-api.tiktok.com/user/info/: context deadline exceeded'')\<rparr>"

definition env_invalid :: env where
  "env_invalid = env0\<lparr>verify_resp := (\<lambda>n tok. Inr False)\<rparr>"





text \<open>
  Bootstrap entries: one for the stored mapping with another token, one for a mapping
  that is not stored and has no token; and a stored account whose access token is empty
  while its refresh token is not.
\<close>

definition entry_stored :: AccountBootstrap where
  "entry_stored = \<lparr>bs_YouTubeChannelID = ''UCabc'', bs_TikTokAccountID = ''ttk123'',
                    bs_TikTokAccessToken = ''T9'', bs_IsActive = None\<rparr>"

definition entry_new :: AccountBootstrap where
  "entry_new = \<lparr>bs_YouTubeChannelID = ''UCnew'', bs_TikTokAccountID = ''ttk999'',
                 bs_TikTokAccessToken = [], bs_IsActive = Some False\<rparr>"

definition acct_no_access :: Account where
  "acct_no_access = acct0\<lparr>acc_TikTokAccessToken := []\<rparr>"

definition world_no_access :: world where
  "world_no_access = world0\<lparr>accounts := [acct_no_access]\<rparr>"

text \<open>A worker pool of one slot.\<close>

definition cfg_one :: Config where
  "cfg_one = cfg0\<lparr>WorkerPoolSize := 1\<rparr>"

text \<open>
  An immediate goroutine that got its slot a minute ago and a batch goroutine that holds a
  worker, and the events that lead there.
\<close>

definition events_both :: "event list" where
  "events_both = [LaunchImmediate, AcquireProcessingSlot 0, Advance 60000000000,
                  SpawnBatch, AcquireWorker 0]"

definition runtime_both :: runtime where
  "runtime_both = \<lparr>processingLimiter = 1, workerPool = 1,
                    immediate = [Running 1800000000000], batch = [BatchRunning],
                    wall = 60000000000, baseDone = False\<rparr>"

section \<open>Properties of the account repository\<close>

lemma find_accounts_upsert:
  assumes f: "find (\<lambda>r. acc_ID r = i) rows = Some old" and i: "acc_ID a = i"
  shows "find (\<lambda>r. acc_ID r = i) (accounts_upsert rows a) =
     Some ((account_row a)\<lparr>acc_CreatedAt := acc_CreatedAt old\<rparr>)"
proof -
  have ex: "list_ex (\<lambda>r. acc_ID r = acc_ID a) rows"
    using f i by (auto simp: list_ex_iff find_Some_iff)
  have "find (\<lambda>r. acc_ID r = i) (map (\<lambda>r. if acc_ID r = i
                     then (account_row a)\<lparr>acc_CreatedAt := acc_CreatedAt r\<rparr> else r) rows) =
     Some ((account_row a)\<lparr>acc_CreatedAt := acc_CreatedAt old\<rparr>)"
    using f i by (induction rows) (auto simp: account_row_def)
  then show ?thesis using ex i by (simp add: accounts_upsert_def)
qed

lemma GetByID_cases:
  assumes "GetByID e w i = (r, w1)"
  shows "accounts w1 = accounts w \<and> videos w1 = videos w \<and> ticks w1 = ticks w \<and>
         uuids w1 = uuids w \<and> calls w1 = calls w \<and> db_ops w1 = Suc (db_ops w) \<and>
         status_log w1 = status_log w \<and>
         (case db_err e (db_ops w) of Some er \<Rightarrow> r = Inl er
          | None \<Rightarrow> r = Inr (find (\<lambda>r. acc_ID r = i) (accounts w)))"
  using assms by (auto simp: GetByID_def db_stmt_def split: option.splits)

lemma account_Save_known_id:
  assumes "account_Save e w a = (r, a', w')" and "acc_ID a \<noteq> ''''"
  shows "a' = a\<lparr>acc_UpdatedAt := clock e (ticks w)\<rparr> \<and>
         ticks w' = Suc (ticks w) \<and> uuids w' = uuids w \<and> calls w' = calls w \<and>
         db_ops w' = Suc (db_ops w) \<and> videos w' = videos w \<and>
         (if r = None then accounts w' = accounts_upsert (accounts w) a'
          else accounts w' = accounts w)"
  using assms
  by (auto simp: account_Save_def db_stmt_def time_Now_def Let_def split: option.splits if_splits)

section \<open>Properties of the account manager\<close>

text \<open>
  C10. Whatever \<open>UpdateAccountMapping\<close> returns for a stored account, a parameter
  passed as the empty string leaves its column as it was (channel id, TikTok account id,
  access token), and a nil \<open>isActive\<close> leaves the active flag; so no call turns a
  non-empty stored id or token into the empty string. Refresh token, last-checked data and
  creation time are never touched. When the call succeeds \<open>updated_at\<close> is the clock
  reading taken by the repository's Save; when it fails the row is as before.
\<close>

theorem UpdateAccountMapping_frame:
  assumes run: "UpdateAccountMapping e w i y t k act = (res, w')"
      and old: "find (\<lambda>r. acc_ID r = i) (accounts w) = Some old"
      and i: "i \<noteq> ''''"
  shows "\<exists>new. find (\<lambda>r. acc_ID r = i) (accounts w') = Some new \<and>
           (y = '''' \<longrightarrow> acc_YouTubeChannelID new = acc_YouTubeChannelID old) \<and>
           (t = '''' \<longrightarrow> acc_TikTokAccountID new = acc_TikTokAccountID old) \<and>
           (k = '''' \<longrightarrow> acc_TikTokAccessToken new = acc_TikTokAccessToken old) \<and>
           (act = None \<longrightarrow> acc_IsActive new = acc_IsActive old) \<and>
           (acc_YouTubeChannelID old \<noteq> '''' \<longrightarrow> acc_YouTubeChannelID new \<noteq> '''') \<and>
           (acc_TikTokAccountID old \<noteq> '''' \<longrightarrow> acc_TikTokAccountID new \<noteq> '''') \<and>
           (acc_TikTokAccessToken old \<noteq> '''' \<longrightarrow> acc_TikTokAccessToken new \<noteq> '''') \<and>
           acc_ID new = acc_ID old \<and>
           acc_TikTokRefreshToken new = acc_TikTokRefreshToken old \<and>
           acc_TikTokTokenExpiresAt new =
             (if isl res then acc_TikTokTokenExpiresAt old
              else nullableTimePtr (acc_TikTokTokenExpiresAt old)) \<and>
           acc_LastCheckedAt new = acc_LastCheckedAt old \<and>
           acc_LastVideoID new = acc_LastVideoID old \<and>
           acc_CreatedAt new = acc_CreatedAt old \<and>
           acc_UpdatedAt new = (if isl res then acc_UpdatedAt old else clock e (Suc (ticks w)))"
proof -
  obtain r1 w1 where g: "GetByID e w i = (r1, w1)" by (cases "GetByID e w i")
  note g1 = GetByID_cases[OF g]
  have idold: "acc_ID old = i" using old by (auto simp: find_Some_iff)
  show ?thesis
  proof (cases "db_err e (db_ops w)")
    case (Some er)
    then have "r1 = Inl er" using g1 by simp
    then have "isl res" "accounts w' = accounts w"
      using run g g1 by (auto simp: UpdateAccountMapping_def)
    then show ?thesis using old idold by simp
  next
    case None
    then have r1: "r1 = Inr (Some old)" using g1 old by simp
    define a4 where "a4 =
       (let a1 = (if y \<noteq> '''' then old\<lparr>acc_YouTubeChannelID := y\<rparr> else old);
            a2 = (if t \<noteq> '''' then a1\<lparr>acc_TikTokAccountID := t\<rparr> else a1);
            a3 = (if k \<noteq> '''' then a2\<lparr>acc_TikTokAccessToken := k\<rparr> else a2)
        in (case act of Some b \<Rightarrow> a3\<lparr>acc_IsActive := b\<rparr> | None \<Rightarrow> a3))"
    obtain now w2 where n: "time_Now e w1 = (now, w2)" by (cases "time_Now e w1")
    obtain r a5 w3 where s: "account_Save e w2 (a4\<lparr>acc_UpdatedAt := now\<rparr>) = (r, a5, w3)"
      by (cases "account_Save e w2 (a4\<lparr>acc_UpdatedAt := now\<rparr>)")
    have ida4: "acc_ID a4 = i"
      using idold by (simp add: a4_def Let_def split: option.splits)
    have w2: "accounts w2 = accounts w" "ticks w2 = Suc (ticks w)"
      using n g1 by (auto simp: time_Now_def)
    have s1: "a5 = a4\<lparr>acc_UpdatedAt := clock e (Suc (ticks w))\<rparr>"
       "if r = None then accounts w3 = accounts_upsert (accounts w) a5
        else accounts w3 = accounts w"
      using account_Save_known_id[OF s] ida4 i w2 by auto
    have res: "w' = w3"
      "res = (case r of Some er \<Rightarrow> Inl (''failed to update account mapping: '' @ er)
              | None \<Rightarrow> Inr a5)"
      using run g r1 n s
      by (auto simp: UpdateAccountMapping_def a4_def Let_def split: option.splits)
    show ?thesis
    proof (cases r)
      case (Some er)
      then show ?thesis using res s1 old idold by simp
    next
      case None
      have "find (\<lambda>r. acc_ID r = i) (accounts w') =
              Some ((account_row a5)\<lparr>acc_CreatedAt := acc_CreatedAt old\<rparr>)"
        using find_accounts_upsert[OF old, of a5] s1 None res ida4 by simp
      then show ?thesis using None res s1
        by (simp add: account_row_def a4_def Let_def split: option.splits)
    qed
  qed
qed

theorem UpdateAccountMapping_frame_witness:
  "find (\<lambda>r. acc_ID r = ''a1'') (accounts world0) = Some acct0 \<and>
   (\<exists>new. find (\<lambda>r. acc_ID r = ''a1'')
            (accounts (snd (UpdateAccountMapping env0 world0 ''a1'' ''UCnew'' [] [] None)))
            = Some new \<and>
          acc_TikTokAccountID new = ''ttk123'' \<and> acc_TikTokAccessToken new = ''T0'' \<and>
          acc_IsActive new \<and> acc_TikTokRefreshToken new = ''R0'')"
proof -
  have old: "find (\<lambda>r. acc_ID r = ''a1'') (accounts world0) = Some acct0"
    by (simp add: world0_def acct0_def)
  have run: "UpdateAccountMapping env0 world0 ''a1'' ''UCnew'' [] [] None =
      (fst (UpdateAccountMapping env0 world0 ''a1'' ''UCnew'' [] [] None),
       snd (UpdateAccountMapping env0 world0 ''a1'' ''UCnew'' [] [] None))"
    by simp
  have i: "''a1'' \<noteq> ''''" by simp
  show ?thesis
    using UpdateAccountMapping_frame[OF run old i] old by (auto simp: acct0_def)
qed

section \<open>Properties of the video repository\<close>

lemma find_videos_upsert:
  assumes f: "find (\<lambda>r. vid_ID r = i) rows = Some old" and i: "vid_ID v = i"
  shows "find (\<lambda>r. vid_ID r = i) (videos_upsert rows v) =
           Some (v\<lparr>vid_CreatedAt := vid_CreatedAt old\<rparr>)"
proof -
  have ex: "list_ex (\<lambda>r. vid_ID r = vid_ID v) rows"
    using f i by (auto simp: list_ex_iff find_Some_iff)
  have "find (\<lambda>r. vid_ID r = i) (map (\<lambda>r. if vid_ID r = i
                     then v\<lparr>vid_CreatedAt := vid_CreatedAt r\<rparr> else r) rows) =
     Some (v\<lparr>vid_CreatedAt := vid_CreatedAt old\<rparr>)"
    using f i by (induction rows) auto
  then show ?thesis using ex i by (simp add: videos_upsert_def)
qed

lemma video_Save_known_id:
  assumes "video_Save e w v = (r, v', w')" and "vid_ID v \<noteq> ''''"
  shows "v' = v\<lparr>vid_Status := (if vid_Status v = '''' then VideoStatusPending else vid_Status v),
                 vid_UpdatedAt := clock e (ticks w)\<rparr> \<and>
         ticks w' = Suc (ticks w) \<and> uuids w' = uuids w \<and> calls w' = calls w \<and>
         db_ops w' = Suc (db_ops w) \<and> accounts w' = accounts w \<and>
         (if r = None then videos w' = videos_upsert (videos w) v'
          else videos w' = videos w)"
  using assms
  by (auto simp: video_Save_def db_stmt_def time_Now_def Let_def split: option.splits if_splits)

text \<open>
  C1, as the code has it. A \<open>Save\<close> that succeeds on an id already stored leaves the row
  with every mutable column taken from the caller's struct: the status is the caller's
  (\<open>pending\<close> when the caller's is empty), whatever the stored status was;
  \<open>updated_at\<close> is the clock reading, and \<open>id\<close> and \<open>created_at\<close> stay. So the
  stored status regresses exactly when the caller hands in an earlier status.
\<close>

theorem video_Save_overwrites:
  assumes run: "video_Save e w v = (None, v', w')"
      and old: "find (\<lambda>r. vid_ID r = vid_ID v) (videos w) = Some old"
      and i: "vid_ID v \<noteq> ''''"
  shows "find (\<lambda>r. vid_ID r = vid_ID v) (videos w') =
           Some (v\<lparr>vid_Status := (if vid_Status v = '''' then VideoStatusPending else vid_Status v),
                   vid_UpdatedAt := clock e (ticks w),
                   vid_CreatedAt := vid_CreatedAt old\<rparr>)"
  using video_Save_known_id[OF run i] find_videos_upsert[OF old, of v'] by simp

theorem video_Save_overwrites_witness:
  "video_Save env0 world_done (video_done\<lparr>vid_Title := ''new title''\<rparr>) =
     (None, fst (snd (video_Save env0 world_done (video_done\<lparr>vid_Title := ''new title''\<rparr>))),
      snd (snd (video_Save env0 world_done (video_done\<lparr>vid_Title := ''new title''\<rparr>)))) \<and>
   find (\<lambda>r. vid_ID r = ''yt1'') (videos world_done) = Some video_done \<and>
   find (\<lambda>r. vid_ID r = ''yt1'')
     (videos (snd (snd (video_Save env0 world_done (video_done\<lparr>vid_Title := ''new title''\<rparr>))))) =
     Some (video_done\<lparr>vid_Title := ''new title'', vid_UpdatedAt := 63900000000000000000\<rparr>)"
proof -
  let ?v = "video_done\<lparr>vid_Title := ''new title''\<rparr>"
  have ok: "fst (video_Save env0 world_done ?v) = None"
    by (simp add: Let_def video_Save_def db_stmt_def time_Now_def env0_def world_done_def
        world0_def video_done_def video0_def acct0_def videos_clash_def VideoStatusCompleted_def)
  have run: "video_Save env0 world_done ?v =
      (None, fst (snd (video_Save env0 world_done ?v)), snd (snd (video_Save env0 world_done ?v)))"
    using ok by (metis prod.collapse)
  have old: "find (\<lambda>r. vid_ID r = vid_ID ?v) (videos world_done) = Some video_done"
    by (simp add: world_done_def world0_def video_done_def video0_def)
  have i: "vid_ID ?v \<noteq> ''''"
    by (simp add: video_done_def video0_def)
  have id: "vid_ID ?v = ''yt1''"
    by (simp add: video_done_def video0_def)
  have "find (\<lambda>r. vid_ID r = ''yt1'') (videos (snd (snd (video_Save env0 world_done ?v)))) =
     Some (video_done\<lparr>vid_Title := ''new title'', vid_UpdatedAt := 63900000000000000000\<rparr>)"
    using video_Save_overwrites[OF run old i] unfolding id
    by (simp add: video_done_def video0_def env0_def world_done_def world0_def
        VideoStatusCompleted_def)
  then show ?thesis using run old unfolding id by simp
qed

text \<open>
  The claim as the specification words it fails: a completed row, looked up by its
  YouTube id, saved again under its id with status \<open>pending\<close>, and looked up again, is
  \<open>pending\<close>.
\<close>

theorem video_Save_regresses_status:
  "fst (GetByYouTubeID env0 world_done ''yt1'') = Inr (Some video_done) \<and>
   fst (video_Save env0 world_done video0) = None \<and>
   (case fst (GetByYouTubeID env0 (snd (snd (video_Save env0 world_done video0))) ''yt1'') of
      Inr (Some r) \<Rightarrow>
        vid_Status r = VideoStatusPending \<and> regresses (vid_Status video_done) (vid_Status r)
    | _ \<Rightarrow> False)"
  by (simp add: Let_def GetByYouTubeID_def video_Save_def db_stmt_def time_Now_def env0_def
      world_done_def world0_def video_done_def video0_def acct0_def videos_clash_def
      videos_upsert_def regresses_def success_path_rank_def VideoStatusPending_def
      VideoStatusCompleted_def VideoStatusDownloading_def VideoStatusDownloaded_def
      VideoStatusUploading_def)

section \<open>Properties of the discovery loop\<close>

lemma GetByYouTubeID_cases:
  assumes "GetByYouTubeID e w y = (r, w1)"
  shows "w1 = w\<lparr>db_ops := Suc (db_ops w)\<rparr> \<and>
         (case db_err e (db_ops w) of Some er \<Rightarrow> r = Inl er
          | None \<Rightarrow> r = Inr (find (\<lambda>r. vid_YouTubeVideoID r = y) (videos w)))"
  using assms by (auto simp: GetByYouTubeID_def db_stmt_def split: option.splits)

lemma scan_videos_frame:
  "scan_videos e w c i xs = (nv, errs, w') \<Longrightarrow> w' = w\<lparr>db_ops := db_ops w + length xs\<rparr>"
proof (induction xs arbitrary: w nv errs w')
  case Nil
  then show ?case by simp
next
  case (Cons x xs)
  obtain r w1 where g: "GetByYouTubeID e w (vid_YouTubeVideoID x) = (r, w1)"
    by (cases "GetByYouTubeID e w (vid_YouTubeVideoID x)")
  have w1: "w1 = w\<lparr>db_ops := Suc (db_ops w)\<rparr>" using GetByYouTubeID_cases[OF g] by simp
  obtain nv2 errs2 w2 where s: "scan_videos e w1 c i xs = (nv2, errs2, w2)"
    by (cases "scan_videos e w1 c i xs")
  have "w2 = w1\<lparr>db_ops := db_ops w1 + length xs\<rparr>" using Cons.IH[OF s] .
  moreover have "w' = w2"
    using Cons.prems g s by (auto split: sum.splits option.splits if_splits)
  ultimately show ?case using w1 by simp
qed

lemma scan_videos_accepted:
  "scan_videos e w c i xs = (nv, errs, w') \<Longrightarrow> v \<in> set nv \<Longrightarrow>
   \<exists>u \<in> set xs. v = u\<lparr>vid_AccountID := i\<rparr> \<and>
      find (\<lambda>r. vid_YouTubeVideoID r = vid_YouTubeVideoID u) (videos w) = None \<and>
      \<not> (\<not> IsZero c \<and> Before (vid_PublishedAt u) c)"
proof (induction xs arbitrary: w nv errs w')
  case Nil
  then show ?case by simp
next
  case (Cons x xs)
  obtain r w1 where g: "GetByYouTubeID e w (vid_YouTubeVideoID x) = (r, w1)"
    by (cases "GetByYouTubeID e w (vid_YouTubeVideoID x)")
  note g1 = GetByYouTubeID_cases[OF g]
  have w1: "videos w1 = videos w" using g1 by simp
  obtain nv2 errs2 w2 where s: "scan_videos e w1 c i xs = (nv2, errs2, w2)"
    by (cases "scan_videos e w1 c i xs")
  note ih = Cons.IH[OF s, unfolded w1]
  show ?case
  proof (cases "v \<in> set nv2")
    case True
    then show ?thesis using ih by auto
  next
    case False
    then have "nv = x\<lparr>vid_AccountID := i\<rparr> # nv2 \<and> r = Inr None \<and> \<not> (\<not> IsZero c \<and> Before (vid_PublishedAt x) c)"
      using Cons.prems g s by (auto split: sum.splits option.splits if_splits)
    moreover then have "find (\<lambda>r. vid_YouTubeVideoID r = vid_YouTubeVideoID x) (videos w) = None"
      using g1 by (auto split: option.splits)
    ultimately show ?thesis using Cons.prems(2) False by auto
  qed
qed

lemma scan_videos_no_faults:
  assumes "\<forall>n. db_err e n = None"
  shows "scan_videos e w c i xs =
     (map (\<lambda>u. u\<lparr>vid_AccountID := i\<rparr>)
        (filter (\<lambda>u. find (\<lambda>r. vid_YouTubeVideoID r = vid_YouTubeVideoID u) (videos w) = None \<and>
                     \<not> (\<not> IsZero c \<and> Before (vid_PublishedAt u) c)) xs),
      [], w\<lparr>db_ops := db_ops w + length xs\<rparr>)"
proof (induction xs arbitrary: w)
  case Nil
  then show ?case by simp
next
  case (Cons x xs)
  have g: "GetByYouTubeID e w (vid_YouTubeVideoID x) =
      (Inr (find (\<lambda>r. vid_YouTubeVideoID r = vid_YouTubeVideoID x) (videos w)), w\<lparr>db_ops := Suc (db_ops w)\<rparr>)"
    using assms by (simp add: GetByYouTubeID_def db_stmt_def)
  show ?case
    by (simp add: g Cons.IH split: option.splits)
qed

lemma scan_videos_errors:
  "scan_videos e w c i xs = (nv, errs, w') \<Longrightarrow>
   length errs = length (filter (\<lambda>k. db_err e k \<noteq> None) [db_ops w ..< db_ops w + length xs])"
proof (induction xs arbitrary: w nv errs w')
  case Nil
  then show ?case by simp
next
  case (Cons x xs)
  obtain r w1 where g: "GetByYouTubeID e w (vid_YouTubeVideoID x) = (r, w1)"
    by (cases "GetByYouTubeID e w (vid_YouTubeVideoID x)")
  note g1 = GetByYouTubeID_cases[OF g]
  have w1: "db_ops w1 = Suc (db_ops w)" using g1 by simp
  obtain nv2 errs2 w2 where s: "scan_videos e w1 c i xs = (nv2, errs2, w2)"
    by (cases "scan_videos e w1 c i xs")
  note ih = Cons.IH[OF s, unfolded w1]
  have up: "[db_ops w ..< db_ops w + length (x # xs)] = db_ops w # [Suc (db_ops w) ..< Suc (db_ops w) + length xs]"
    using upt_conv_Cons[of "db_ops w" "db_ops w + Suc (length xs)"] by simp
  show ?case
  proof (cases "db_err e (db_ops w)")
    case None
    then have "errs = errs2"
      using Cons.prems g s g1 by (auto split: sum.splits option.splits if_splits)
    then show ?thesis using ih None unfolding up by simp
  next
    case (Some er)
    then have "errs = er # errs2"
      using Cons.prems g s g1 by (auto split: sum.splits option.splits if_splits)
    then show ?thesis using ih Some unfolding up by simp
  qed
qed


lemma video_Save_frame:
  assumes "video_Save e w v = (r, v', w')"
  shows "accounts w' = accounts w \<and> calls w' = calls w \<and> db_ops w' = Suc (db_ops w) \<and>
         ticks w' = Suc (ticks w) \<and>
         vid_YouTubeVideoID v' = vid_YouTubeVideoID v \<and> vid_PublishedAt v' = vid_PublishedAt v \<and>
         vid_AccountID v' = vid_AccountID v \<and>
         (if r = None then videos w' = videos_upsert (videos w) v' else videos w' = videos w)"
  using assms
  by (auto simp: video_Save_def db_stmt_def time_Now_def uuid_NewString_def Let_def
      split: option.splits if_splits prod.splits)

lemma videos_upsert_rows:
  "row \<in> set (videos_upsert rows v) \<Longrightarrow>
   row \<in> set rows \<or>
   (vid_YouTubeVideoID row = vid_YouTubeVideoID v \<and> vid_PublishedAt row = vid_PublishedAt v \<and>
    vid_AccountID row = vid_AccountID v)"
  by (auto simp: videos_upsert_def split: if_splits)


lemma save_videos_rows:
  "save_videos e w xs = (p, errs, w') \<Longrightarrow> row \<in> set (videos w') \<Longrightarrow>
   row \<in> set (videos w) \<or>
   (\<exists>v \<in> set xs. vid_YouTubeVideoID row = vid_YouTubeVideoID v \<and>
                  vid_PublishedAt row = vid_PublishedAt v \<and> vid_AccountID row = vid_AccountID v)"
proof (induction xs arbitrary: w p errs w')
  case Nil
  then show ?case by simp
next
  case (Cons x xs)
  obtain r v w1 where g: "video_Save e w x = (r, v, w1)"
    by (cases "video_Save e w x")
  note g1 = video_Save_frame[OF g]
  obtain p2 errs2 w2 where s: "save_videos e w1 xs = (p2, errs2, w2)"
    by (cases "save_videos e w1 xs")
  have "w' = w2"
    using Cons.prems g s by (auto split: option.splits)
  then have "row \<in> set (videos w1) \<or>
     (\<exists>v \<in> set xs. vid_YouTubeVideoID row = vid_YouTubeVideoID v \<and>
                  vid_PublishedAt row = vid_PublishedAt v \<and> vid_AccountID row = vid_AccountID v)"
    using Cons.IH[OF s] Cons.prems(2) by simp
  moreover have "row \<in> set (videos w1) \<Longrightarrow> row \<in> set (videos w) \<or>
     (vid_YouTubeVideoID row = vid_YouTubeVideoID x \<and> vid_PublishedAt row = vid_PublishedAt x \<and>
      vid_AccountID row = vid_AccountID x)"
    using g1 videos_upsert_rows[of row "videos w" v] by (auto split: if_splits)
  ultimately show ?case by auto
qed



lemma monitorAccount_unfold:
  assumes listing: "youtube_resp e (length (calls w)) (acc_YouTubeChannelID account) = Inr listing"
  shows "monitorAccount e w h account =
     (case scan_videos e
             ((if IsZero (acc_LastCheckedAt account) then w\<lparr>ticks := Suc (ticks w)\<rparr> else w)
                \<lparr>calls := calls w @ [GetLatestVideosCall (acc_YouTubeChannelID account) 50]\<rparr>)
             (if IsZero (acc_LastCheckedAt account) then clock e (ticks w) - 24 * Hour else 0)
             (acc_ID account) listing of
        (newVideos, errs1, w3) \<Rightarrow>
          (case save_videos e w3
                  (if length newVideos > 1 then sort_Slice e newVideos else newVideos) of
             (persistedVideos, errs2, w4) \<Rightarrow>
               (let lastVideoID =
                      (case persistedVideos of
                         [] \<Rightarrow> acc_LastVideoID account
                       | v # _ \<Rightarrow> vid_YouTubeVideoID v);
                    result = \<lparr>mr_err = None, mr_newVideos = newVideos,
                              mr_persistedVideos = persistedVideos,
                              mr_storageErrors = errs1 @ errs2, mr_launched = []\<rparr>
                in if errs1 @ errs2 \<noteq> []
                   then (result\<lparr>mr_err := Some (''storage errors occurred while processing account '' @
                                                acc_ID account)\<rparr>, w4)
                   else (case UpdateLastChecked e (w4\<lparr>ticks := Suc (ticks w4)\<rparr>) (acc_ID account)
                                lastVideoID (clock e (ticks w4)) of
                           (Some er, w6) \<Rightarrow>
                             (result\<lparr>mr_err := Some (''failed to update last checked: '' @ er)\<rparr>, w6)
                         | (None, w6) \<Rightarrow>
                             (result\<lparr>mr_launched := (if h then persistedVideos else [])\<rparr>, w6)))))"
  using listing
  by (simp add: monitorAccount_def time_Now_def ext_def Let_def split: prod.splits)


lemma UpdateLastChecked_cases:
  assumes "UpdateLastChecked e w i l c = (r, w')"
  shows "db_ops w' = Suc (db_ops w) \<and> videos w' = videos w \<and> r = db_err e (db_ops w) \<and>
         (if r = None
          then accounts w' = map (\<lambda>r. if acc_ID r = i
                        then r\<lparr>acc_LastVideoID := l, acc_LastCheckedAt := c,
                               acc_UpdatedAt := clock e (ticks w)\<rparr>
                        else r) (accounts w)
          else accounts w' = accounts w)"
  using assms
  by (auto simp: UpdateLastChecked_def time_Now_def db_stmt_def split: option.splits)

lemma scan_videos_nth:
  "scan_videos e w c i xs = (nv, errs, w') \<Longrightarrow> k < length xs \<Longrightarrow>
   db_err e (db_ops w + k) = None \<Longrightarrow>
   find (\<lambda>row. vid_YouTubeVideoID row = vid_YouTubeVideoID (xs ! k)) (videos w) = None \<Longrightarrow>
   \<not> (\<not> IsZero c \<and> Before (vid_PublishedAt (xs ! k)) c) \<Longrightarrow>
   (xs ! k)\<lparr>vid_AccountID := i\<rparr> \<in> set nv"
proof (induction xs arbitrary: w nv errs w' k)
  case Nil
  then show ?case by simp
next
  case (Cons x xs)
  obtain r w1 where g: "GetByYouTubeID e w (vid_YouTubeVideoID x) = (r, w1)"
    by (cases "GetByYouTubeID e w (vid_YouTubeVideoID x)")
  note g1 = GetByYouTubeID_cases[OF g]
  have w1: "videos w1 = videos w" "db_ops w1 = Suc (db_ops w)" using g1 by simp_all
  obtain nv2 errs2 w2 where s: "scan_videos e w1 c i xs = (nv2, errs2, w2)"
    by (cases "scan_videos e w1 c i xs")
  have sub: "set nv2 \<subseteq> set nv"
    using Cons.prems(1) g s by (auto split: sum.splits option.splits if_splits)
  show ?case
  proof (cases k)
    case 0
    then have "r = Inr None" using g1 Cons.prems by simp
    then have "nv = x\<lparr>vid_AccountID := i\<rparr> # nv2"
      using Cons.prems g s 0 by (auto split: if_splits)
    then show ?thesis using 0 by simp
  next
    case (Suc j)
    have "(xs ! j)\<lparr>vid_AccountID := i\<rparr> \<in> set nv2"
      using Cons.IH[OF s, of j] Cons.prems Suc w1 by simp
    then show ?thesis using sub Suc by auto
  qed
qed



lemma sort_key_sorts_newest_first:
  "sorts_newest_first (sort_key (\<lambda>v. - vid_PublishedAt v))"
proof -
  have "sorted_wrt (\<lambda>a b. \<not> After (vid_PublishedAt b) (vid_PublishedAt a))
          (sort_key (\<lambda>v. - vid_PublishedAt v) xs)" for xs :: "Video list"
  proof -
    have "sorted (map (\<lambda>v. - vid_PublishedAt v) (sort_key (\<lambda>v. - vid_PublishedAt v) xs))"
      by (rule sorted_sort_key)
    then show ?thesis
      by (simp add: sorted_wrt_map After_def not_less)
  qed
  then show ?thesis by (simp add: sorts_newest_first_def)
qed

text \<open>
  C4. On the first run of an account (\<open>LastCheckedAt\<close> zero) no accepted video was
  published before the clock reading minus 24 hours; on any run no accepted video has its
  YouTube id in the store; on a later run every listed video whose lookup succeeds and
  finds nothing is accepted, however old. Every row of \<open>videos\<close> after the call is
  a row from before, or carries a YouTube id that was not stored, the account's id and, on
  the first run, a publish time not before the cutoff. The clock is assumed not to read
  exactly 24 hours after Go's zero time, where the cutoff would itself be the zero time.
\<close>

theorem monitorAccount_bootstrap_cutoff:
  assumes run: "monitorAccount e w h account = (r, w')"
      and listing: "youtube_resp e (length (calls w)) (acc_YouTubeChannelID account) = Inr listing"
      and srt: "sorts_newest_first (sort_Slice e)"
      and clk: "clock e (ticks w) \<noteq> 24 * Hour"
  shows "(IsZero (acc_LastCheckedAt account) \<longrightarrow>
           (\<forall>v \<in> set (mr_newVideos r).
              \<not> Before (vid_PublishedAt v) (clock e (ticks w) - 24 * Hour))) \<and>
         (\<forall>v \<in> set (mr_newVideos r).
            find (\<lambda>row. vid_YouTubeVideoID row = vid_YouTubeVideoID v) (videos w) = None) \<and>
         (\<not> IsZero (acc_LastCheckedAt account) \<longrightarrow>
           (\<forall>k < length listing.
              db_err e (db_ops w + k) = None \<and>
              find (\<lambda>row. vid_YouTubeVideoID row = vid_YouTubeVideoID (listing ! k)) (videos w) = None
              \<longrightarrow> (listing ! k)\<lparr>vid_AccountID := acc_ID account\<rparr> \<in> set (mr_newVideos r))) \<and>
         (\<forall>row \<in> set (videos w').
            row \<in> set (videos w) \<or>
            (find (\<lambda>old. vid_YouTubeVideoID old = vid_YouTubeVideoID row) (videos w) = None \<and>
             (IsZero (acc_LastCheckedAt account) \<longrightarrow>
                \<not> Before (vid_PublishedAt row) (clock e (ticks w) - 24 * Hour)) \<and>
             vid_AccountID row = acc_ID account))"
proof -
  let ?first = "IsZero (acc_LastCheckedAt account)"
  define c where "c = (if ?first then clock e (ticks w) - 24 * Hour else 0)"
  define w2 where "w2 = (if ?first then w\<lparr>ticks := Suc (ticks w)\<rparr> else w)
                \<lparr>calls := calls w @ [GetLatestVideosCall (acc_YouTubeChannelID account) 50]\<rparr>"
  obtain nv errs1 w3 where sc: "scan_videos e w2 c (acc_ID account) listing = (nv, errs1, w3)"
    by (cases "scan_videos e w2 c (acc_ID account) listing")
  obtain p errs2 w4 where
    sv: "save_videos e w3 (if length nv > 1 then sort_Slice e nv else nv) = (p, errs2, w4)"
    by (cases "save_videos e w3 (if length nv > 1 then sort_Slice e nv else nv)")
  obtain ur w6 where up: "UpdateLastChecked e (w4\<lparr>ticks := Suc (ticks w4)\<rparr>) (acc_ID account)
        (case p of [] \<Rightarrow> acc_LastVideoID account | v # _ \<Rightarrow> vid_YouTubeVideoID v)
        (clock e (ticks w4)) = (ur, w6)"
    by (cases "UpdateLastChecked e (w4\<lparr>ticks := Suc (ticks w4)\<rparr>) (acc_ID account)
        (case p of [] \<Rightarrow> acc_LastVideoID account | v # _ \<Rightarrow> vid_YouTubeVideoID v)
        (clock e (ticks w4))")
  note unf = monitorAccount_unfold[OF listing, of h, folded c_def w2_def]
  have w2: "db_ops w2 = db_ops w" "videos w2 = videos w"
    by (simp_all add: w2_def)
  have w3: "videos w3 = videos w"
    using scan_videos_frame[OF sc] w2 by simp
  have r: "mr_newVideos r = nv"
    using run unfolding unf sc prod.case sv
    by (auto simp: Let_def split: if_splits prod.splits option.splits)
  have vw: "videos w' = videos w4"
    using run UpdateLastChecked_cases[OF up] unfolding unf sc prod.case sv
    by (auto simp: Let_def up split: if_splits option.splits)
  have st: "set (if length nv > 1 then sort_Slice e nv else nv) = set nv"
    using srt by (auto simp: sorts_newest_first_def dest: mset_eq_setD)
  have acc: "\<exists>u \<in> set listing. v = u\<lparr>vid_AccountID := acc_ID account\<rparr> \<and>
      find (\<lambda>r. vid_YouTubeVideoID r = vid_YouTubeVideoID u) (videos w) = None \<and>
      \<not> (\<not> IsZero c \<and> Before (vid_PublishedAt u) c)" if "v \<in> set nv" for v
    using scan_videos_accepted[OF sc that] w2 by simp
  have cz: "?first \<Longrightarrow> \<not> IsZero c" using clk by (simp add: c_def IsZero_def)
  have a1: "?first \<longrightarrow> (\<forall>v \<in> set nv. \<not> Before (vid_PublishedAt v) (clock e (ticks w) - 24 * Hour))"
  proof (intro impI ballI)
    fix v assume f: ?first and v: "v \<in> set nv"
    from acc[OF v] cz[OF f] f show "\<not> Before (vid_PublishedAt v) (clock e (ticks w) - 24 * Hour)"
      by (auto simp: c_def)
  qed
  have a2: "\<forall>v \<in> set nv. find (\<lambda>row. vid_YouTubeVideoID row = vid_YouTubeVideoID v) (videos w) = None"
  proof
    fix v assume v: "v \<in> set nv"
    from acc[OF v] show "find (\<lambda>row. vid_YouTubeVideoID row = vid_YouTubeVideoID v) (videos w) = None"
      by auto
  qed
  have a3: "\<not> ?first \<longrightarrow>
           (\<forall>k < length listing.
              db_err e (db_ops w + k) = None \<and>
              find (\<lambda>row. vid_YouTubeVideoID row = vid_YouTubeVideoID (listing ! k)) (videos w) = None
              \<longrightarrow> (listing ! k)\<lparr>vid_AccountID := acc_ID account\<rparr> \<in> set nv)"
  proof (intro impI allI)
    fix k assume nf: "\<not> ?first" and k: "k < length listing" and
      h: "db_err e (db_ops w + k) = None \<and>
          find (\<lambda>row. vid_YouTubeVideoID row = vid_YouTubeVideoID (listing ! k)) (videos w) = None"
    have "IsZero c" using nf by (simp add: c_def IsZero_def)
    then show "(listing ! k)\<lparr>vid_AccountID := acc_ID account\<rparr> \<in> set nv"
      using scan_videos_nth[OF sc k] h w2 by simp
  qed
  have a4: "\<forall>row \<in> set (videos w').
            row \<in> set (videos w) \<or>
            (find (\<lambda>old. vid_YouTubeVideoID old = vid_YouTubeVideoID row) (videos w) = None \<and>
             (?first \<longrightarrow> \<not> Before (vid_PublishedAt row) (clock e (ticks w) - 24 * Hour)) \<and>
             vid_AccountID row = acc_ID account)"
  proof
    fix row assume "row \<in> set (videos w')"
    then have "row \<in> set (videos w) \<or>
      (\<exists>v \<in> set nv. vid_YouTubeVideoID row = vid_YouTubeVideoID v \<and>
                  vid_PublishedAt row = vid_PublishedAt v \<and> vid_AccountID row = vid_AccountID v)"
      using save_videos_rows[OF sv, of row] vw w3 st by simp
    then show "row \<in> set (videos w) \<or>
            (find (\<lambda>old. vid_YouTubeVideoID old = vid_YouTubeVideoID row) (videos w) = None \<and>
             (?first \<longrightarrow> \<not> Before (vid_PublishedAt row) (clock e (ticks w) - 24 * Hour)) \<and>
             vid_AccountID row = acc_ID account)"
    proof
      assume "row \<in> set (videos w)" then show ?thesis by simp
    next
      assume "\<exists>v \<in> set nv. vid_YouTubeVideoID row = vid_YouTubeVideoID v \<and>
                  vid_PublishedAt row = vid_PublishedAt v \<and> vid_AccountID row = vid_AccountID v"
      then obtain v where v: "v \<in> set nv" "vid_YouTubeVideoID row = vid_YouTubeVideoID v"
                  "vid_PublishedAt row = vid_PublishedAt v" "vid_AccountID row = vid_AccountID v"
        by blast
      have "vid_AccountID v = acc_ID account" using acc[OF v(1)] by auto
      then show ?thesis using a1 a2 v by auto
    qed
  qed
  show ?thesis using a1 a2 a3 a4 unfolding r by blast
qed

subsection \<open>The two scans of the example\<close>


theorem monitorAccount_bootstrap_cutoff_witness:
  "sorts_newest_first (sort_Slice env1) \<and>
   youtube_resp env1 (length (calls world0)) (acc_YouTubeChannelID acct0) = Inr listing1 \<and>
   clock env1 (ticks world0) \<noteq> 24 * Hour \<and>
   IsZero (acc_LastCheckedAt acct0) \<and>
   map vid_YouTubeVideoID (mr_newVideos (fst (monitorAccount env1 world0 True acct0))) =
     [''id_1h'', ''id_12h''] \<and>
   map vid_YouTubeVideoID (videos (snd (monitorAccount env1 world0 True acct0))) =
     [''id_1h'', ''id_12h''] \<and>
   list_all (\<lambda>v. \<not> Before (vid_PublishedAt v) (clock env1 (ticks world0) - 24 * Hour))
     (mr_newVideos (fst (monitorAccount env1 world0 True acct0)))"
proof -
  let ?run = "monitorAccount env1 world0 True acct0"
  have srt: "sorts_newest_first (sort_Slice env1)"
    by (simp add: env1_def env0_def sort_key_sorts_newest_first)
  have listing: "youtube_resp env1 (length (calls world0)) (acc_YouTubeChannelID acct0) = Inr listing1"
    by (simp add: env1_def env0_def)
  have clk: "clock env1 (ticks world0) \<noteq> 24 * Hour"
    by (simp add: env1_def env0_def world0_def Hour_def Minute_def Second_def)
  have first: "IsZero (acc_LastCheckedAt acct0)"
    by (simp add: IsZero_def acct0_def)
  have run: "?run = (fst ?run, snd ?run)" by simp
  have new: "map vid_YouTubeVideoID (mr_newVideos (fst ?run)) = [''id_1h'', ''id_12h'']"
    by code_simp
  have rows: "map vid_YouTubeVideoID (videos (snd ?run)) = [''id_1h'', ''id_12h'']"
    by code_simp
  note th = monitorAccount_bootstrap_cutoff[OF run listing srt clk]
  have c1: "list_all (\<lambda>v. \<not> Before (vid_PublishedAt v) (clock env1 (ticks world0) - 24 * Hour))
     (mr_newVideos (fst ?run))"
    using th[THEN conjunct1] first unfolding list_all_iff by blast
  show ?thesis
    using srt listing clk first new rows c1 by blast
qed

section \<open>Properties of the processing pipeline\<close>

lemma find_map_preserving:
  assumes "\<And>x. P (f x) = P x"
  shows "find P (map f xs) = map_option f (find P xs)"
  using assms by (induction xs) auto

lemma find_Some_list_ex:
  "find P xs = Some x \<Longrightarrow> list_ex P xs"
  by (auto simp: list_ex_iff find_Some_iff)

lemma UpdateStatus_effect:
  assumes "UpdateStatus e w i s m = (r, w')"
  shows "accounts w' = accounts w \<and> calls w' = calls w \<and> ticks w' = Suc (ticks w) \<and>
         db_ops w' = Suc (db_ops w) \<and> uuids w' = uuids w \<and> r = db_err e (db_ops w) \<and>
         (if r = None
          then videos w' = map (\<lambda>r. if vid_ID r = i
                        then r\<lparr>vid_Status := s, vid_ErrorMessage := m,
                               vid_UpdatedAt := clock e (ticks w)\<rparr>
                        else r) (videos w) \<and>
               status_log w' = (if list_ex (\<lambda>r. vid_ID r = i) (videos w)
                                then status_log w @ [(i, s)] else status_log w)
          else videos w' = videos w \<and> status_log w' = status_log w)"
  using assms
  by (auto simp: UpdateStatus_def time_Now_def db_stmt_def split: option.splits)

lemma UpdateStatus_row:
  assumes "UpdateStatus e w i s m = (None, w')"
      and "find (\<lambda>r. vid_ID r = i) (videos w) = Some r0"
  shows "find (\<lambda>r. vid_ID r = i) (videos w') =
           Some (r0\<lparr>vid_Status := s, vid_ErrorMessage := m, vid_UpdatedAt := clock e (ticks w)\<rparr>) \<and>
         status_log w' = status_log w @ [(i, s)]"
proof -
  note ef = UpdateStatus_effect[OF assms(1)]
  have "find (\<lambda>r. vid_ID r = i) (map (\<lambda>r. if vid_ID r = i
                        then r\<lparr>vid_Status := s, vid_ErrorMessage := m,
                               vid_UpdatedAt := clock e (ticks w)\<rparr>
                        else r) (videos w)) =
     map_option (\<lambda>r. if vid_ID r = i
                        then r\<lparr>vid_Status := s, vid_ErrorMessage := m,
                               vid_UpdatedAt := clock e (ticks w)\<rparr>
                        else r) (find (\<lambda>r. vid_ID r = i) (videos w))"
    by (rule find_map_preserving) simp
  then show ?thesis
    using ef assms(2) find_Some_list_ex[OF assms(2)] by (auto simp: find_Some_iff)
qed

lemma UpdateFilePath_effect:
  assumes "UpdateFilePath e w i p = (r, w')"
  shows "accounts w' = accounts w \<and> calls w' = calls w \<and> ticks w' = Suc (ticks w) \<and>
         db_ops w' = Suc (db_ops w) \<and> uuids w' = uuids w \<and> status_log w' = status_log w \<and>
         r = db_err e (db_ops w) \<and>
         (if r = None
          then videos w' = map (\<lambda>r. if vid_ID r = i
                        then r\<lparr>vid_LocalFilePath := p, vid_UpdatedAt := clock e (ticks w)\<rparr>
                        else r) (videos w)
          else videos w' = videos w)"
  using assms
  by (auto simp: UpdateFilePath_def time_Now_def db_stmt_def split: option.splits)

lemma UpdateFilePath_row:
  assumes "UpdateFilePath e w i p = (None, w')"
      and "find (\<lambda>r. vid_ID r = i) (videos w) = Some r0"
  shows "find (\<lambda>r. vid_ID r = i) (videos w') =
           Some (r0\<lparr>vid_LocalFilePath := p, vid_UpdatedAt := clock e (ticks w)\<rparr>)"
proof -
  note ef = UpdateFilePath_effect[OF assms(1)]
  have "find (\<lambda>r. vid_ID r = i) (map (\<lambda>r. if vid_ID r = i
                        then r\<lparr>vid_LocalFilePath := p, vid_UpdatedAt := clock e (ticks w)\<rparr>
                        else r) (videos w)) =
     map_option (\<lambda>r. if vid_ID r = i
                        then r\<lparr>vid_LocalFilePath := p, vid_UpdatedAt := clock e (ticks w)\<rparr>
                        else r) (find (\<lambda>r. vid_ID r = i) (videos w))"
    by (rule find_map_preserving) simp
  then show ?thesis
    using ef assms(2) by (auto simp: find_Some_iff)
qed

lemma UpdateTikTokID_effect:
  assumes "UpdateTikTokID e w i t = (r, w')"
  shows "accounts w' = accounts w \<and> calls w' = calls w \<and> ticks w' = Suc (ticks w) \<and>
         db_ops w' = Suc (db_ops w) \<and> uuids w' = uuids w \<and> status_log w' = status_log w \<and>
         r = db_err e (db_ops w) \<and>
         (if r = None
          then videos w' = map (\<lambda>r. if vid_ID r = i
                        then r\<lparr>vid_TikTokVideoID := t, vid_UpdatedAt := clock e (ticks w)\<rparr>
                        else r) (videos w)
          else videos w' = videos w)"
  using assms
  by (auto simp: UpdateTikTokID_def time_Now_def db_stmt_def split: option.splits)

lemma UpdateTikTokID_row:
  assumes "UpdateTikTokID e w i t = (None, w')"
      and "find (\<lambda>r. vid_ID r = i) (videos w) = Some r0"
  shows "find (\<lambda>r. vid_ID r = i) (videos w') =
           Some (r0\<lparr>vid_TikTokVideoID := t, vid_UpdatedAt := clock e (ticks w)\<rparr>)"
proof -
  note ef = UpdateTikTokID_effect[OF assms(1)]
  have "find (\<lambda>r. vid_ID r = i) (map (\<lambda>r. if vid_ID r = i
                        then r\<lparr>vid_TikTokVideoID := t, vid_UpdatedAt := clock e (ticks w)\<rparr>
                        else r) (videos w)) =
     map_option (\<lambda>r. if vid_ID r = i
                        then r\<lparr>vid_TikTokVideoID := t, vid_UpdatedAt := clock e (ticks w)\<rparr>
                        else r) (find (\<lambda>r. vid_ID r = i) (videos w))"
    by (rule find_map_preserving) simp
  then show ?thesis
    using ef assms(2) by (auto simp: find_Some_iff)
qed

lemma tiktok_UploadVideo_effect:
  assumes "tiktok_UploadVideo e w req = (r, w')"
  shows "accounts w' = accounts w \<and> videos w' = videos w \<and> ticks w' = ticks w \<and>
         db_ops w' = db_ops w \<and> uuids w' = uuids w \<and> status_log w' = status_log w \<and>
         (calls w' = calls w \<or> calls w' = calls w @ [UploadVideoCall req]) \<and>
         (\<forall>t. r = Inr t \<longrightarrow>
            calls w' = calls w @ [UploadVideoCall req] \<and>
            (\<exists>resp. upload_resp e (length (calls w)) req = Inr resp \<and>
                    pub_StatusCode resp = 200 \<and> pub_ErrorCode resp = [] \<and> pub_VideoID resp = t))"
  using assms
  by (auto simp: tiktok_UploadVideo_def ext_def publishVideo_result_def
      split: if_splits sum.splits)

lemma downloadVideo_ok:
  assumes run: "downloadVideo e w v = (None, v', w')"
      and row: "find (\<lambda>r. vid_ID r = vid_ID v) (videos w) = Some r0"
  shows "\<exists>p r1. v' = v\<lparr>vid_LocalFilePath := p\<rparr> \<and>
           download_resp e (length (calls w)) (vid_YouTubeVideoID v) = Inr p \<and>
           find (\<lambda>r. vid_ID r = vid_ID v) (videos w') = Some r1 \<and>
           vid_Status r1 = VideoStatusDownloaded \<and> vid_LocalFilePath r1 = p \<and>
           status_log w' = status_log w @ [(vid_ID v, VideoStatusDownloading),
                                           (vid_ID v, VideoStatusDownloaded)] \<and>
           accounts w' = accounts w \<and>
           calls w' = calls w @ [DownloadVideoCall (vid_YouTubeVideoID v)]"
proof -
  obtain r1 w1 where u1: "UpdateStatus e w (vid_ID v) VideoStatusDownloading [] = (r1, w1)"
    by (cases "UpdateStatus e w (vid_ID v) VideoStatusDownloading []")
  have r1: "r1 = None" using run u1 by (auto simp: downloadVideo_def split: option.splits)
  note e1 = UpdateStatus_effect[OF u1] and row1 = UpdateStatus_row[OF u1[unfolded r1] row]
  define w2 where "w2 = w1\<lparr>calls := calls w1 @ [DownloadVideoCall (vid_YouTubeVideoID v)]\<rparr>"
  obtain p where d: "download_resp e (length (calls w1)) (vid_YouTubeVideoID v) = Inr p"
    using run u1 r1
    by (auto simp: downloadVideo_def ext_def split: option.splits sum.splits)
  obtain r3 w3 where u3: "UpdateFilePath e w2 (vid_ID v) p = (r3, w3)"
    by (cases "UpdateFilePath e w2 (vid_ID v) p")
  have r3: "r3 = None" using run u1 r1 d u3
    by (auto simp: downloadVideo_def ext_def w2_def split: option.splits)
  have row2: "find (\<lambda>r. vid_ID r = vid_ID v) (videos w2) =
      Some (r0\<lparr>vid_Status := VideoStatusDownloading, vid_ErrorMessage := [],
               vid_UpdatedAt := clock e (ticks w)\<rparr>)"
    using row1 by (simp add: w2_def)
  note e3 = UpdateFilePath_effect[OF u3] and row3 = UpdateFilePath_row[OF u3[unfolded r3] row2]
  obtain r4 w4 where u4: "UpdateStatus e w3 (vid_ID v) VideoStatusDownloaded [] = (r4, w4)"
    by (cases "UpdateStatus e w3 (vid_ID v) VideoStatusDownloaded []")
  have fin: "r4 = None \<and> w' = w4 \<and> v' = v\<lparr>vid_LocalFilePath := p\<rparr>"
    using run u1 r1 d u3 r3 u4
    by (auto simp: downloadVideo_def ext_def w2_def split: option.splits)
  note e4 = UpdateStatus_effect[OF u4] and row4 = UpdateStatus_row[OF u4[unfolded fin[THEN conjunct1]] row3]
  show ?thesis
    using fin d e1 e3 e4 row1 row4 by (auto simp: w2_def)
qed


lemma account_Save_frame:
  assumes "account_Save e w a = (r, a', w')"
  shows "videos w' = videos w \<and> status_log w' = status_log w \<and> calls w' = calls w"
  using assms
  by (auto simp: account_Save_def db_stmt_def time_Now_def uuid_NewString_def Let_def
      split: option.splits if_splits prod.splits)

lemma uploadVideo_validate_frame:
  assumes "uploadVideo_validate e w cfg a = (r, w')"
  shows "videos w' = videos w \<and> status_log w' = status_log w"
proof -
  have sv: "videos w2 = videos w1 \<and> status_log w2 = status_log w1"
    if "account_Save e w1 x = (q, y, w2)" for w1 x q y w2
    using account_Save_frame[OF that] by simp
  show ?thesis
    using assms
    by (auto simp: uploadVideo_validate_def ext_def time_Now_def Let_def
        split: if_splits sum.splits prod.splits option.splits dest!: sv)
qed

lemma uploadVideo_upload_ok:
  assumes run: "uploadVideo_upload e w v a = (None, w')"
      and row: "find (\<lambda>r. vid_ID r = vid_ID v) (videos w) = Some r0"
  shows "\<exists>t req resp r1.
           upload_resp e (length (calls w)) req = Inr resp \<and> pub_StatusCode resp = 200 \<and>
           pub_ErrorCode resp = [] \<and> pub_VideoID resp = t \<and>
           req_AccessToken req = acc_TikTokAccessToken a \<and>
           calls w' = calls w @ [UploadVideoCall req] \<and>
           find (\<lambda>r. vid_ID r = vid_ID v) (videos w') = Some r1 \<and>
           vid_Status r1 = VideoStatusUploading \<and> vid_TikTokVideoID r1 = t \<and>
           vid_LocalFilePath r1 = vid_LocalFilePath r0 \<and>
           status_log w' = status_log w @ [(vid_ID v, VideoStatusUploading)] \<and>
           accounts w' = accounts w"
proof -
  let ?req = "\<lparr>req_AccessToken = acc_TikTokAccessToken a,
                   req_OpenID = acc_TikTokAccountID a,
                   req_VideoPath = vid_LocalFilePath v,
                   req_Title = vid_Title v,
                   req_Description = vid_Description v,
                   req_PrivacyLevel = ''PUBLIC_TO_EVERYONE''\<rparr>"
  obtain r1 w1 where u1: "UpdateStatus e w (vid_ID v) VideoStatusUploading [] = (r1, w1)"
    by (cases "UpdateStatus e w (vid_ID v) VideoStatusUploading []")
  have r1: "r1 = None" using run u1 by (auto simp: uploadVideo_upload_def split: option.splits)
  note e1 = UpdateStatus_effect[OF u1] and row1 = UpdateStatus_row[OF u1[unfolded r1] row]
  obtain r2 w2 where u2: "tiktok_UploadVideo e w1 ?req = (r2, w2)"
    by (cases "tiktok_UploadVideo e w1 ?req")
  obtain t where t: "r2 = Inr t" and u3: "UpdateTikTokID e w2 (vid_ID v) t = (None, w')"
    using run u1 r1 u2 by (auto simp: uploadVideo_upload_def split: sum.splits)
  note e2 = tiktok_UploadVideo_effect[OF u2]
  have row2: "find (\<lambda>r. vid_ID r = vid_ID v) (videos w2) =
      Some (r0\<lparr>vid_Status := VideoStatusUploading, vid_ErrorMessage := [],
               vid_UpdatedAt := clock e (ticks w)\<rparr>)"
    using row1 e2 by simp
  note e3 = UpdateTikTokID_effect[OF u3] and row3 = UpdateTikTokID_row[OF u3 row2]
  obtain resp where resp: "upload_resp e (length (calls w1)) ?req = Inr resp"
       "pub_StatusCode resp = 200" "pub_ErrorCode resp = []" "pub_VideoID resp = t"
       "calls w2 = calls w1 @ [UploadVideoCall ?req]"
    using e2 t by auto
  show ?thesis
    apply (rule exI[of _ t], rule exI[of _ ?req], rule exI[of _ resp])
    using resp e1 e2 e3 row1 row3 by simp
qed

lemma uploadVideo_ok:
  assumes run: "uploadVideo e w cfg v = (None, w')"
      and row: "find (\<lambda>r. vid_ID r = vid_ID v) (videos w) = Some r0"
  shows "\<exists>t n req resp r1.
           upload_resp e n req = Inr resp \<and> pub_StatusCode resp = 200 \<and>
           pub_ErrorCode resp = [] \<and> pub_VideoID resp = t \<and>
           calls w' \<noteq> [] \<and> last (calls w') = UploadVideoCall req \<and>
           find (\<lambda>r. vid_ID r = vid_ID v) (videos w') = Some r1 \<and>
           vid_Status r1 = VideoStatusUploading \<and> vid_TikTokVideoID r1 = t \<and>
           vid_LocalFilePath r1 = vid_LocalFilePath r0 \<and>
           status_log w' = status_log w @ [(vid_ID v, VideoStatusUploading)]"
proof -
  obtain g w1 where g: "GetByID e w (vid_AccountID v) = (g, w1)"
    by (cases "GetByID e w (vid_AccountID v)")
  note g1 = GetByID_cases[OF g]
  obtain a where a: "g = Inr (Some a)" "acc_TikTokAccountID a \<noteq> []"
    using run g by (auto simp: uploadVideo_def split: sum.splits option.splits if_splits)
  obtain q w2 where val: "uploadVideo_validate e w1 cfg a = (q, w2)"
    by (cases "uploadVideo_validate e w1 cfg a")
  obtain a' where q: "q = Inr a'" and up: "uploadVideo_upload e w2 v a' = (None, w')"
    using run g a val by (auto simp: uploadVideo_def split: sum.splits)
  have w2: "videos w2 = videos w" "status_log w2 = status_log w"
    using uploadVideo_validate_frame[OF val] g1 by simp_all
  have row2: "find (\<lambda>r. vid_ID r = vid_ID v) (videos w2) = Some r0" using row w2 by simp
  from uploadVideo_upload_ok[OF up row2] obtain t req resp r1 where
    h: "upload_resp e (length (calls w2)) req = Inr resp" "pub_StatusCode resp = 200"
       "pub_ErrorCode resp = []" "pub_VideoID resp = t"
       "calls w' = calls w2 @ [UploadVideoCall req]"
       "find (\<lambda>r. vid_ID r = vid_ID v) (videos w') = Some r1"
       "vid_Status r1 = VideoStatusUploading" "vid_TikTokVideoID r1 = t"
       "vid_LocalFilePath r1 = vid_LocalFilePath r0"
       "status_log w' = status_log w2 @ [(vid_ID v, VideoStatusUploading)]"
    by blast
  show ?thesis
    apply (rule exI[of _ t], rule exI[of _ "length (calls w2)"], rule exI[of _ req],
           rule exI[of _ resp], rule exI[of _ r1])
    using h w2 by simp
qed

text \<open>
  C5, as the code has it. When \<open>processVideo\<close> returns nil for a stored video, the
  row is \<open>completed\<close>, its file path is the one the downloader returned, and its
  \<open>tiktok_video_id\<close> is the \<open>data.video_id\<close> of the publish answer (HTTP 200, no
  error code), which \<open>publishVideo\<close> passes on without looking at it; the statuses
  written to the row during the call are downloading, downloaded, uploading, completed, in
  this order.
\<close>

theorem processVideo_completed:
  assumes run: "processVideo e w cfg v = (None, w')"
      and row: "find (\<lambda>r. vid_ID r = vid_ID v) (videos w) = Some r0"
  shows "\<exists>t n req resp p r1.
           upload_resp e n req = Inr resp \<and> pub_StatusCode resp = 200 \<and>
           pub_ErrorCode resp = [] \<and> pub_VideoID resp = t \<and>
           last (calls w') = UploadVideoCall req \<and>
           download_resp e (length (calls w)) (vid_YouTubeVideoID v) = Inr p \<and>
           find (\<lambda>r. vid_ID r = vid_ID v) (videos w') = Some r1 \<and>
           vid_Status r1 = VideoStatusCompleted \<and> vid_TikTokVideoID r1 = t \<and>
           vid_LocalFilePath r1 = p \<and>
           status_log w' = status_log w @
             [(vid_ID v, VideoStatusDownloading), (vid_ID v, VideoStatusDownloaded),
              (vid_ID v, VideoStatusUploading), (vid_ID v, VideoStatusCompleted)]"
proof -
  obtain d v1 w1 where d: "downloadVideo e w v = (d, v1, w1)"
    by (cases "downloadVideo e w v")
  have dn: "d = None"
    using run d by (auto simp: processVideo_def split: option.splits prod.splits)
  obtain u w2 where u: "uploadVideo e w1 cfg v1 = (u, w2)"
    by (cases "uploadVideo e w1 cfg v1")
  have un: "u = None" and fin: "UpdateStatus e w2 (vid_ID v1) VideoStatusCompleted [] = (None, w')"
    using run d dn u by (auto simp: processVideo_def split: option.splits prod.splits)
  from downloadVideo_ok[OF d[unfolded dn] row] obtain p r1 where
    h1: "v1 = v\<lparr>vid_LocalFilePath := p\<rparr>"
        "download_resp e (length (calls w)) (vid_YouTubeVideoID v) = Inr p"
        "find (\<lambda>r. vid_ID r = vid_ID v) (videos w1) = Some r1"
        "vid_LocalFilePath r1 = p"
        "status_log w1 = status_log w @ [(vid_ID v, VideoStatusDownloading),
                                           (vid_ID v, VideoStatusDownloaded)]"
    by blast
  have id1: "vid_ID v1 = vid_ID v" using h1 by simp
  from uploadVideo_ok[OF u[unfolded un] h1(3)[folded id1]] obtain t n req resp r2 where
    h2: "upload_resp e n req = Inr resp" "pub_StatusCode resp = 200"
        "pub_ErrorCode resp = []" "pub_VideoID resp = t"
        "last (calls w2) = UploadVideoCall req"
        "find (\<lambda>r. vid_ID r = vid_ID v) (videos w2) = Some r2"
        "vid_TikTokVideoID r2 = t" "vid_LocalFilePath r2 = vid_LocalFilePath r1"
        "status_log w2 = status_log w1 @ [(vid_ID v, VideoStatusUploading)]"
    unfolding id1 by blast
  note e3 = UpdateStatus_effect[OF fin] and row3 = UpdateStatus_row[OF fin h2(6)[folded id1]]
  show ?thesis
    apply (rule exI[of _ t], rule exI[of _ n], rule exI[of _ req], rule exI[of _ resp],
           rule exI[of _ p])
    using h1 h2 e3 row3 id1 by simp
qed

theorem processVideo_completed_witness:
  "find (\<lambda>r. vid_ID r = vid_ID video0) (videos world_pending) = Some video0 \<and>
   fst (processVideo env0 world_pending cfg0 video0) = None \<and>
   status_log (snd (processVideo env0 world_pending cfg0 video0)) =
     [(''yt1'', VideoStatusDownloading), (''yt1'', VideoStatusDownloaded),
      (''yt1'', VideoStatusUploading), (''yt1'', VideoStatusCompleted)] \<and>
   (\<exists>r1. find (\<lambda>r. vid_ID r = ''yt1'') (videos (snd (processVideo env0 world_pending cfg0 video0))) =
           Some r1 \<and> vid_Status r1 = VideoStatusCompleted)"
proof -
  let ?run = "processVideo env0 world_pending cfg0 video0"
  have row: "find (\<lambda>r. vid_ID r = vid_ID video0) (videos world_pending) = Some video0"
    by (simp add: world_pending_def world0_def)
  have ok: "fst ?run = None" by code_simp
  have run: "?run = (None, snd ?run)" using ok by (metis prod.collapse)
  have id: "vid_ID video0 = ''yt1''" by (simp add: video0_def)
  have log: "status_log world_pending = []" by (simp add: world_pending_def world0_def)
  show ?thesis
    using processVideo_completed[OF run row] row ok unfolding id log by auto
qed

text \<open>
  The claim as the specification words it fails where the publish answer carries no
  \<open>video_id\<close>: the row becomes \<open>completed\<close> with an empty \<open>tiktok_video_id\<close>.
\<close>

theorem processVideo_completed_without_sink_id:
  "fst (processVideo env_no_video_id world_pending cfg0 video0) = None \<and>
   (case find (\<lambda>r. vid_ID r = ''yt1'')
           (videos (snd (processVideo env_no_video_id world_pending cfg0 video0))) of
      Some r \<Rightarrow> vid_Status r = VideoStatusCompleted \<and> vid_TikTokVideoID r = []
    | None \<Rightarrow> False)"
  by code_simp





lemma UpdateStatus_no_fault:
  assumes "db_err e (db_ops w) = None"
  shows "\<exists>w'. UpdateStatus e w i s m = (None, w')"
  using assms by (simp add: UpdateStatus_def time_Now_def db_stmt_def)

lemma UpdateFilePath_no_fault:
  assumes "db_err e (db_ops w) = None"
  shows "\<exists>w'. UpdateFilePath e w i p = (None, w')"
  using assms by (simp add: UpdateFilePath_def time_Now_def db_stmt_def)

lemma downloadVideo_runs:
  assumes nofault: "\<forall>n. db_err e n = None"
      and dl: "download_resp e (length (calls w)) (vid_YouTubeVideoID v) = Inr p"
  shows "\<exists>w'. downloadVideo e w v = (None, v\<lparr>vid_LocalFilePath := p\<rparr>, w')"
proof -
  obtain w1 where u1: "UpdateStatus e w (vid_ID v) VideoStatusDownloading [] = (None, w1)"
    using UpdateStatus_no_fault nofault by blast
  have c1: "calls w1 = calls w" using UpdateStatus_effect[OF u1] by simp
  obtain w3 where u3: "UpdateFilePath e
      (w1\<lparr>calls := calls w1 @ [DownloadVideoCall (vid_YouTubeVideoID v)]\<rparr>) (vid_ID v) p = (None, w3)"
    using UpdateFilePath_no_fault nofault by blast
  obtain w4 where u4: "UpdateStatus e w3 (vid_ID v) VideoStatusDownloaded [] = (None, w4)"
    using UpdateStatus_no_fault nofault by blast
  show ?thesis
    using u1 c1 dl u3 u4 by (simp add: downloadVideo_def ext_def)
qed

lemma authorize_url_shape:
  "sublist (''client_key='' @ QueryEscape (TikTokAPIKey cfg)) (promptManualAuthorization cfg i) \<and>
   sublist (''redirect_uri='' @ QueryEscape (TikTokRedirectURI cfg)) (promptManualAuthorization cfg i)"
proof -
  let ?k = "''client_key='' @ QueryEscape (TikTokAPIKey cfg)"
  let ?r = "''redirect_uri='' @ QueryEscape (TikTokRedirectURI cfg)"
  have 1: "promptManualAuthorization cfg i =
     ''https://www.tiktok.com/v2/auth/authorize?'' @ ?k @
     (''&scope='' @ QueryEscape ''user.info.basic,video.upload,video.publish'' @
      ''&response_type=code&redirect_uri='' @ QueryEscape (TikTokRedirectURI cfg) @
      ''&state='' @ QueryEscape ''12345'')"
    by (simp add: promptManualAuthorization_def)
  have 2: "promptManualAuthorization cfg i =
     (''https://www.tiktok.com/v2/auth/authorize?client_key='' @ QueryEscape (TikTokAPIKey cfg) @
      ''&scope='' @ QueryEscape ''user.info.basic,video.upload,video.publish'' @
      ''&response_type=code&'') @ ?r @ (''&state='' @ QueryEscape ''12345'')"
    by (simp add: promptManualAuthorization_def)
  have "sublist ?k (promptManualAuthorization cfg i)"
    unfolding 1 by (rule sublist_appendI)
  moreover have "sublist ?r (promptManualAuthorization cfg i)"
    unfolding 2 by (rule sublist_appendI)
  ultimately show ?thesis by simp
qed

lemma sublist_trans_append:
  "sublist xs ys \<Longrightarrow> sublist xs (a @ ys @ b)"
  by (metis sublist_appendI sublist_order.order_trans)


text \<open>
  C8, as the code has it. With API validation on, a stored video whose download succeeds
  and whose account holds an empty access token, or a token (the placeholder of the
  bootstrap included) that the sink's verification answers false for while no refresh
  token is stored: \<open>processVideo\<close> returns an error whose message holds the authorize
  URL, and with it the query-escaped client key and redirect URI of the configuration; it
  makes no refresh and no upload call and does not write the status \<open>uploading\<close>; the
  row is \<open>failed\<close> with that message; and no row of \<open>accounts\<close> changes. The SQL
  statements are taken to succeed.
\<close>

theorem processVideo_reauth_needed:
  assumes run: "processVideo e w cfg v = (res, w')"
      and nofault: "\<forall>n. db_err e n = None"
      and row: "find (\<lambda>r. vid_ID r = vid_ID v) (videos w) = Some r0"
      and dl: "download_resp e (length (calls w)) (vid_YouTubeVideoID v) = Inr p"
      and acct: "find (\<lambda>a. acc_ID a = vid_AccountID v) (accounts w) = Some account"
      and tid: "acc_TikTokAccountID account \<noteq> []"
      and web: "\<not> TikTokEnableWeb cfg"
      and tok: "acc_TikTokAccessToken account = [] \<or>
                (verify_resp e (Suc (length (calls w))) (acc_TikTokAccessToken account) = Inr False \<and>
                 acc_TikTokRefreshToken account = [])"
  shows "\<exists>msg r1.
           res = Some msg \<and>
           sublist (promptManualAuthorization cfg (acc_ID account)) msg \<and>
           sublist (''client_key='' @ QueryEscape (TikTokAPIKey cfg)) msg \<and>
           sublist (''redirect_uri='' @ QueryEscape (TikTokRedirectURI cfg)) msg \<and>
           calls w' = calls w @ DownloadVideoCall (vid_YouTubeVideoID v) #
                        (if acc_TikTokAccessToken account = [] then []
                         else [VerifyAccessTokenCall (acc_TikTokAccessToken account)]) \<and>
           accounts w' = accounts w \<and>
           find (\<lambda>r. vid_ID r = vid_ID v) (videos w') = Some r1 \<and>
           vid_Status r1 = VideoStatusFailed \<and> vid_ErrorMessage r1 = msg \<and>
           status_log w' = status_log w @
             [(vid_ID v, VideoStatusDownloading), (vid_ID v, VideoStatusDownloaded),
              (vid_ID v, VideoStatusFailed)]"
proof -
  let ?v1 = "v\<lparr>vid_LocalFilePath := p\<rparr>"
  let ?url = "promptManualAuthorization cfg (acc_ID account)"
  obtain w1 where d: "downloadVideo e w v = (None, ?v1, w1)"
    using downloadVideo_runs[OF nofault dl] by blast
  from downloadVideo_ok[OF d row] obtain r1 where
    h1: "find (\<lambda>r. vid_ID r = vid_ID v) (videos w1) = Some r1"
        "status_log w1 = status_log w @ [(vid_ID v, VideoStatusDownloading),
                                           (vid_ID v, VideoStatusDownloaded)]"
        "accounts w1 = accounts w"
        "calls w1 = calls w @ [DownloadVideoCall (vid_YouTubeVideoID v)]"
    by blast
  obtain g w2 where g: "GetByID e w1 (vid_AccountID v) = (g, w2)"
    by (cases "GetByID e w1 (vid_AccountID v)")
  note g1 = GetByID_cases[OF g]
  have gr: "g = Inr (Some account)" using g1 nofault acct h1 by simp
  define msg where "msg =
     (if acc_TikTokAccessToken account = []
      then ''TikTok access token not configured for account '' @ acc_ID account @
           ''. Re-authorize via '' @ ?url @ '' and exchange the returned code for a token''
      else ''TikTok access token is invalid or expired for account '' @
           acc_ID account @ '' and no refresh token available. Re-authorize via '' @
           ?url @ '' and exchange the returned code for a new token'')"
  define w3 where "w3 =
     (if acc_TikTokAccessToken account = [] then w2
      else w2\<lparr>calls := calls w2 @ [VerifyAccessTokenCall (acc_TikTokAccessToken account)]\<rparr>)"
  have len: "length (calls w2) = Suc (length (calls w))" using g1 h1 by simp
  have val: "uploadVideo_validate e w2 cfg account = (Inl msg, w3)"
  proof (cases "acc_TikTokAccessToken account = []")
    case True
    then show ?thesis using web by (simp add: uploadVideo_validate_def msg_def w3_def)
  next
    case False
    then have "verify_resp e (length (calls w2)) (acc_TikTokAccessToken account) = Inr False"
      "acc_TikTokRefreshToken account = []"
      using tok len by simp_all
    then show ?thesis using web False
      by (simp add: uploadVideo_validate_def ext_def msg_def w3_def)
  qed
  have up: "uploadVideo e w1 cfg ?v1 = (Some msg, w3)"
    using g gr tid val by (simp add: uploadVideo_def)
  obtain w4 where u4: "UpdateStatus e w3 (vid_ID v) VideoStatusFailed msg = (None, w4)"
    using UpdateStatus_no_fault nofault by blast
  have fin: "res = Some msg" "w' = w4"
    using run d up u4 by (simp_all add: processVideo_def)
  have w3f: "videos w3 = videos w1" "status_log w3 = status_log w1" "accounts w3 = accounts w"
    "calls w3 = calls w @ DownloadVideoCall (vid_YouTubeVideoID v) #
                        (if acc_TikTokAccessToken account = [] then []
                         else [VerifyAccessTokenCall (acc_TikTokAccessToken account)])"
    using g1 h1 by (simp_all add: w3_def)
  have row3: "find (\<lambda>r. vid_ID r = vid_ID v) (videos w3) = Some r1" using h1 w3f by simp
  note e4 = UpdateStatus_effect[OF u4] and row4 = UpdateStatus_row[OF u4 row3]
  have "msg =
     (if acc_TikTokAccessToken account = []
      then ''TikTok access token not configured for account '' @ acc_ID account @
           ''. Re-authorize via ''
      else ''TikTok access token is invalid or expired for account '' @
           acc_ID account @ '' and no refresh token available. Re-authorize via '') @ ?url @
     (if acc_TikTokAccessToken account = []
      then '' and exchange the returned code for a token''
      else '' and exchange the returned code for a new token'')"
    by (simp add: msg_def)
  then have s1: "sublist ?url msg"
    by (metis sublist_appendI)
  have s2: "sublist (''client_key='' @ QueryEscape (TikTokAPIKey cfg)) msg"
    using authorize_url_shape[of cfg "acc_ID account"] s1 sublist_order.order_trans by blast
  have s3: "sublist (''redirect_uri='' @ QueryEscape (TikTokRedirectURI cfg)) msg"
    using authorize_url_shape[of cfg "acc_ID account"] s1 sublist_order.order_trans by blast
  show ?thesis
    apply (rule exI[of _ msg],
           rule exI[of _ "r1\<lparr>vid_Status := VideoStatusFailed, vid_ErrorMessage := msg,
                               vid_UpdatedAt := clock e (ticks w3)\<rparr>"])
    using fin s1 s2 s3 e4 row4 w3f h1 by simp
qed

theorem processVideo_reauth_needed_witness:
  "find (\<lambda>r. vid_ID r = vid_ID video0) (videos world_placeholder) = Some video0 \<and>
   find (\<lambda>a. acc_ID a = vid_AccountID video0) (accounts world_placeholder) = Some acct_placeholder \<and>
   verify_resp env_invalid (Suc (length (calls world_placeholder)))
     (acc_TikTokAccessToken acct_placeholder) = Inr False \<and>
   acc_TikTokRefreshToken acct_placeholder = [] \<and>
   accounts (snd (processVideo env_invalid world_placeholder cfg0 video0)) =
     accounts world_placeholder \<and>
   (\<exists>msg. fst (processVideo env_invalid world_placeholder cfg0 video0) = Some msg \<and>
          sublist ''client_key=awx123key'' msg \<and>
          sublist ''redirect_uri=http%3A%2F%2Flocalhost%3A8080%2Fapi%2Ftiktok%2Fcallback'' msg)"
proof -
  let ?run = "processVideo env_invalid world_placeholder cfg0 video0"
  have run: "?run = (fst ?run, snd ?run)" by simp
  have nofault: "\<forall>n. db_err env_invalid n = None" by (simp add: env_invalid_def env0_def)
  have row: "find (\<lambda>r. vid_ID r = vid_ID video0) (videos world_placeholder) = Some video0"
    by (simp add: world_placeholder_def world0_def)
  have dl: "download_resp env_invalid (length (calls world_placeholder)) (vid_YouTubeVideoID video0) =
      Inr ''./downloads/yt1.mp4''"
    by (simp add: env_invalid_def env0_def video0_def)
  have acct: "find (\<lambda>a. acc_ID a = vid_AccountID video0) (accounts world_placeholder) =
      Some acct_placeholder"
    by (simp add: world_placeholder_def world0_def acct_placeholder_def acct0_def video0_def)
  have tid: "acc_TikTokAccountID acct_placeholder \<noteq> []"
    by (simp add: acct_placeholder_def acct0_def)
  have web: "\<not> TikTokEnableWeb cfg0" by (simp add: cfg0_def)
  have ver: "verify_resp env_invalid (Suc (length (calls world_placeholder)))
     (acc_TikTokAccessToken acct_placeholder) = Inr False"
    by (simp add: env_invalid_def env0_def)
  have ref: "acc_TikTokRefreshToken acct_placeholder = []"
    by (simp add: acct_placeholder_def)
  have tok: "acc_TikTokAccessToken acct_placeholder = [] \<or>
                (verify_resp env_invalid (Suc (length (calls world_placeholder)))
                   (acc_TikTokAccessToken acct_placeholder) = Inr False \<and>
                 acc_TikTokRefreshToken acct_placeholder = [])"
    using ver ref by simp
  have k: "''client_key='' @ QueryEscape (TikTokAPIKey cfg0) = ''client_key=awx123key''"
    by code_simp
  have u: "''redirect_uri='' @ QueryEscape (TikTokRedirectURI cfg0) =
      ''redirect_uri=http%3A%2F%2Flocalhost%3A8080%2Fapi%2Ftiktok%2Fcallback''"
    by code_simp
  from processVideo_reauth_needed[OF run nofault row dl acct tid web tok]
  have "accounts (snd ?run) = accounts world_placeholder \<and>
   (\<exists>msg. fst ?run = Some msg \<and>
          sublist ''client_key=awx123key'' msg \<and>
          sublist ''redirect_uri=http%3A%2F%2Flocalhost%3A8080%2Fapi%2Ftiktok%2Fcallback'' msg)"
    unfolding k u by blast
  then show ?thesis using row acct ver ref by blast
qed

text \<open>
  The claim as the specification words it fails for the placeholder: the code has no test
  for it, so the token is sent to the sink for verification; when that request fails, the
  error carries no authorize URL.
\<close>

theorem processVideo_placeholder_no_authorize_url:
  "acc_TikTokAccessToken acct_placeholder = ''PLACEHOLDER_TOKEN_UPDATE_VIA_EXCHANGE_CODE_API'' \<and>
   fst (processVideo env_unreachable world_placeholder cfg0 video0) =
     Some ''failed to verify access token: Get https://open-api.tiktok.com/user/info/: context deadline exceeded'' \<and>
   \<not> sublist (promptManualAuthorization cfg0 ''a1'')
       ''failed to verify access token: Get https://open-api.tiktok.com/user/info/: context deadline exceeded'' \<and>
   VerifyAccessTokenCall ''PLACEHOLDER_TOKEN_UPDATE_VIA_EXCHANGE_CODE_API''
     \<in> set (calls (snd (processVideo env_unreachable world_placeholder cfg0 video0)))"
  by code_simp

section \<open>Properties of the batch drain\<close>




















section \<open>Properties of the bootstrap\<close>

lemma find_distinct:
  "distinct (map f xs) \<Longrightarrow> x \<in> set xs \<Longrightarrow> find (\<lambda>r. f r = f x) xs = Some x"
  by (induction xs) (auto simp: image_iff)

lemma find_in_set: "find P xs = Some x \<Longrightarrow> x \<in> set xs \<and> P x"
  by (auto simp: find_Some_iff)

lemma UpdateAccountMapping_token:
  assumes run: "UpdateAccountMapping e w i y t k act = (res, w')"
      and old: "find (\<lambda>r. acc_ID r = i) (accounts w) = Some old"
      and i: "i \<noteq> []"
  shows "\<exists>new. find (\<lambda>r. acc_ID r = i) (accounts w') = Some new \<and>
           acc_TikTokRefreshToken new = acc_TikTokRefreshToken old \<and>
           acc_TikTokAccessToken new =
             (if isl res \<or> k = [] then acc_TikTokAccessToken old else k) \<and>
           (db_err e (db_ops w) = None \<and> db_err e (Suc (db_ops w)) = None \<and>
            \<not> list_ex (\<lambda>r. acc_ID r \<noteq> i \<and>
                    (acc_YouTubeChannelID r = (if y = [] then acc_YouTubeChannelID old else y) \<or>
                     acc_TikTokAccountID r = (if t = [] then acc_TikTokAccountID old else t)))
                  (accounts w)
            \<longrightarrow> \<not> isl res)"
proof -
  obtain r1 w1 where g: "GetByID e w i = (r1, w1)" by (cases "GetByID e w i")
  note g1 = GetByID_cases[OF g]
  have idold: "acc_ID old = i" using old by (auto simp: find_Some_iff)
  show ?thesis
  proof (cases "db_err e (db_ops w)")
    case (Some er)
    then have "r1 = Inl er" using g1 by simp
    then have "isl res" "accounts w' = accounts w"
      using run g g1 by (auto simp: UpdateAccountMapping_def)
    then show ?thesis using old Some by simp
  next
    case None
    then have r1: "r1 = Inr (Some old)" using g1 old by simp
    define a4 where "a4 =
       (let a1 = (if y \<noteq> [] then old\<lparr>acc_YouTubeChannelID := y\<rparr> else old);
            a2 = (if t \<noteq> [] then a1\<lparr>acc_TikTokAccountID := t\<rparr> else a1);
            a3 = (if k \<noteq> [] then a2\<lparr>acc_TikTokAccessToken := k\<rparr> else a2)
        in (case act of Some b \<Rightarrow> a3\<lparr>acc_IsActive := b\<rparr> | None \<Rightarrow> a3))"
    obtain now w2 where n: "time_Now e w1 = (now, w2)" by (cases "time_Now e w1")
    obtain r a5 w3 where s: "account_Save e w2 (a4\<lparr>acc_UpdatedAt := now\<rparr>) = (r, a5, w3)"
      by (cases "account_Save e w2 (a4\<lparr>acc_UpdatedAt := now\<rparr>)")
    have a4f: "acc_ID a4 = i"
       "acc_YouTubeChannelID a4 = (if y = [] then acc_YouTubeChannelID old else y)"
       "acc_TikTokAccountID a4 = (if t = [] then acc_TikTokAccountID old else t)"
       "acc_TikTokAccessToken a4 = (if k = [] then acc_TikTokAccessToken old else k)"
       "acc_TikTokRefreshToken a4 = acc_TikTokRefreshToken old"
      using idold by (simp_all add: a4_def Let_def split: option.splits)
    have w2: "accounts w2 = accounts w" "ticks w2 = Suc (ticks w)" "db_ops w2 = Suc (db_ops w)"
      using n g1 by (auto simp: time_Now_def)
    have s1: "a5 = a4\<lparr>acc_UpdatedAt := clock e (Suc (ticks w))\<rparr>"
       "if r = None then accounts w3 = accounts_upsert (accounts w) a5
        else accounts w3 = accounts w"
      using account_Save_known_id[OF s] a4f(1) i w2 by auto
    have res: "w' = w3"
      "res = (case r of Some er \<Rightarrow> Inl (''failed to update account mapping: '' @ er)
              | None \<Rightarrow> Inr a5)"
      using run g r1 n s
      by (auto simp: UpdateAccountMapping_def a4_def Let_def split: option.splits)
    have ok: "r = None"
      if "db_err e (Suc (db_ops w)) = None"
         "\<not> list_ex (\<lambda>r. acc_ID r \<noteq> i \<and>
                    (acc_YouTubeChannelID r = (if y = [] then acc_YouTubeChannelID old else y) \<or>
                     acc_TikTokAccountID r = (if t = [] then acc_TikTokAccountID old else t)))
                  (accounts w)"
      using s that a4f(1,2,3) i w2
      by (auto simp: account_Save_def db_stmt_def time_Now_def Let_def accounts_clash_def
          split: option.splits if_splits)
    show ?thesis
    proof (cases r)
      case (Some er)
      then show ?thesis using res s1 old ok by auto
    next
      case None
      have "find (\<lambda>r. acc_ID r = i) (accounts w') =
              Some ((account_row a5)\<lparr>acc_CreatedAt := acc_CreatedAt old\<rparr>)"
        using find_accounts_upsert[OF old, of a5] s1 None res a4f(1) by simp
      then show ?thesis using None res s1 a4f
        by (simp add: account_row_def)
    qed
  qed
qed

lemma lookup_cases:
  "GetByTikTokAccountID e w t = (r, w1) \<Longrightarrow>
     accounts w1 = accounts w \<and> db_ops w1 = Suc (db_ops w) \<and> uuids w1 = uuids w \<and>
     ticks w1 = ticks w \<and>
     (case db_err e (db_ops w) of Some er \<Rightarrow> r = Inl er
      | None \<Rightarrow> r = Inr (find (\<lambda>r. acc_TikTokAccountID r = t) (accounts w)))"
  "GetByYouTubeChannelID e w y = (r, w1) \<Longrightarrow>
     accounts w1 = accounts w \<and> db_ops w1 = Suc (db_ops w) \<and> uuids w1 = uuids w \<and>
     ticks w1 = ticks w \<and>
     (case db_err e (db_ops w) of Some er \<Rightarrow> r = Inl er
      | None \<Rightarrow> r = Inr (find (\<lambda>r. acc_YouTubeChannelID r = y) (accounts w)))"
  "GetByYouTubeAndTikTok e w y t = (r, w1) \<Longrightarrow>
     accounts w1 = accounts w \<and> db_ops w1 = Suc (db_ops w) \<and> uuids w1 = uuids w \<and>
     ticks w1 = ticks w \<and>
     (case db_err e (db_ops w) of Some er \<Rightarrow> r = Inl er
      | None \<Rightarrow> r = Inr (find (\<lambda>r. acc_YouTubeChannelID r = y \<and> acc_TikTokAccountID r = t)
                            (accounts w)))"
  by (auto simp: GetByTikTokAccountID_def GetByYouTubeChannelID_def GetByYouTubeAndTikTok_def
      db_stmt_def split: option.splits)

text \<open>
  What a round of the loop does for an entry with both ids: it stops at a lookup that
  fails, it creates a mapping when both lookups find nothing, and otherwise it leaves the
  state of the lookups or calls \<open>UpdateAccountMapping\<close> for the account found.
\<close>

lemma bootstrap_entry_existing:
  assumes valid: "bs_YouTubeChannelID acc \<noteq> []" "bs_TikTokAccountID acc \<noteq> []"
      and m: "find (\<lambda>r. acc_TikTokAccountID r = bs_TikTokAccountID acc) (accounts w) = Some old \<or>
              (find (\<lambda>r. acc_TikTokAccountID r = bs_TikTokAccountID acc) (accounts w) = None \<and>
               find (\<lambda>r. acc_YouTubeChannelID r = bs_YouTubeChannelID acc) (accounts w) = Some old)"
  shows "\<exists>w2. accounts w2 = accounts w \<and>
           (bootstrap_entry e w acc = w2 \<or>
            bootstrap_entry e w acc =
              snd (UpdateAccountMapping e w2 (acc_ID old)
                     (if bs_YouTubeChannelID acc \<noteq> acc_YouTubeChannelID old
                      then bs_YouTubeChannelID acc else [])
                     (if bs_TikTokAccountID acc \<noteq> acc_TikTokAccountID old
                      then bs_TikTokAccountID acc else [])
                     (fst (bootstrap_token acc old))
                     (case bs_IsActive acc of None \<Rightarrow> None
                      | Some b \<Rightarrow> if acc_IsActive old \<noteq> b then Some b else None))) \<and>
           ((\<forall>n. db_err e n = None) \<and> snd (bootstrap_token acc old) \<longrightarrow>
            bootstrap_entry e w acc =
              snd (UpdateAccountMapping e w2 (acc_ID old)
                     (if bs_YouTubeChannelID acc \<noteq> acc_YouTubeChannelID old
                      then bs_YouTubeChannelID acc else [])
                     (if bs_TikTokAccountID acc \<noteq> acc_TikTokAccountID old
                      then bs_TikTokAccountID acc else [])
                     (fst (bootstrap_token acc old))
                     (case bs_IsActive acc of None \<Rightarrow> None
                      | Some b \<Rightarrow> if acc_IsActive old \<noteq> b then Some b else None)))"
proof -
  obtain r1 w1 where g1: "GetByTikTokAccountID e w (bs_TikTokAccountID acc) = (r1, w1)"
    by (cases "GetByTikTokAccountID e w (bs_TikTokAccountID acc)")
  note c1 = lookup_cases(1)[OF g1]
  show ?thesis
  proof (cases r1)
    case (Inl er)
    then have "bootstrap_entry e w acc = w1" using valid g1 by (simp add: bootstrap_entry_def)
    moreover have "\<not> (\<forall>n. db_err e n = None)"
      using Inl c1 by (auto split: option.splits)
    moreover have "accounts w1 = accounts w" using c1 by simp
    ultimately show ?thesis by (intro exI[of _ w1]) blast
  next
    case (Inr byTikTok)
    obtain r2 w2 where g2:
      "(if byTikTok = None
        then GetByYouTubeChannelID e w1 (bs_YouTubeChannelID acc)
        else (Inr byTikTok, w1)) = (r2, w2)"
      by (cases "if byTikTok = None
        then GetByYouTubeChannelID e w1 (bs_YouTubeChannelID acc)
        else (Inr byTikTok, w1)")
    have byT: "byTikTok = find (\<lambda>r. acc_TikTokAccountID r = bs_TikTokAccountID acc) (accounts w)"
      using c1 Inr by (auto split: option.splits)
    have a2: "accounts w2 = accounts w"
      using g2 c1 lookup_cases(2)[of e w1 "bs_YouTubeChannelID acc" r2 w2]
      by (auto split: if_splits)
    have r2: "(isl r2 \<and> \<not> (\<forall>n. db_err e n = None)) \<or> r2 = Inr (Some old)"
    proof (cases "byTikTok = None")
      case True
      then have g: "GetByYouTubeChannelID e w1 (bs_YouTubeChannelID acc) = (r2, w2)"
        using g2 valid by simp
      show ?thesis
        using lookup_cases(2)[OF g] c1 m True byT by (auto split: option.splits)
    next
      case False
      then show ?thesis using g2 m byT by auto
    qed
    have unf: "bootstrap_entry e w acc =
      (case r2 of Inl er \<Rightarrow> w2
       | Inr None \<Rightarrow>
            (let token = (if bs_TikTokAccessToken acc = [] then placeholder_token
                          else bs_TikTokAccessToken acc)
             in (case CreateAccountMapping e w2 (bs_YouTubeChannelID acc)
                        (bs_TikTokAccountID acc) token of
                   (Inl er, w3) \<Rightarrow> w3
                 | (Inr account, w3) \<Rightarrow>
                     if bs_IsActive acc = Some False
                     then snd (DeactivateAccountMapping e w3 (acc_ID account))
                     else w3))
        | Inr (Some existing) \<Rightarrow>
            (let (youtubeID, n1) =
                   (if bs_YouTubeChannelID acc \<noteq> [] \<and>
                       bs_YouTubeChannelID acc \<noteq> acc_YouTubeChannelID existing
                    then (bs_YouTubeChannelID acc, True) else ([], False));
                 (tiktokID, n2) =
                   (if bs_TikTokAccountID acc \<noteq> [] \<and>
                       bs_TikTokAccountID acc \<noteq> acc_TikTokAccountID existing
                    then (bs_TikTokAccountID acc, True) else ([], n1));
                 (token, n3) =
                   (case bootstrap_token acc existing of
                      (k, changed) \<Rightarrow> (k, if changed then True else n2));
                 (activePtr, needsUpdate) =
                   (case bs_IsActive acc of
                      None \<Rightarrow> (None, n3)
                    | Some b \<Rightarrow> if acc_IsActive existing \<noteq> b then (Some b, True)
                                else (None, n3))
             in if needsUpdate
                then snd (UpdateAccountMapping e w2 (acc_ID existing)
                            youtubeID tiktokID token activePtr)
                else w2))"
      unfolding bootstrap_entry_def
      by (simp only: valid g1 Inr g2 if_False if_True prod.case sum.case simp_thms
            not_False_eq_True)
    show ?thesis
    proof (cases "isl r2")
      case True
      then have "bootstrap_entry e w acc = w2" using unf by (cases r2) auto
      moreover have "\<not> (\<forall>n. db_err e n = None)" using True r2 by auto
      ultimately show ?thesis using a2 by (intro exI[of _ w2]) blast
    next
      case False
      then have r2old: "r2 = Inr (Some old)" using r2 by auto
      define y where "y = (if bs_YouTubeChannelID acc \<noteq> acc_YouTubeChannelID old
                    then bs_YouTubeChannelID acc else [])"
      define t where "t = (if bs_TikTokAccountID acc \<noteq> acc_TikTokAccountID old
                    then bs_TikTokAccountID acc else [])"
      define act where "act = (case bs_IsActive acc of None \<Rightarrow> None
                    | Some b \<Rightarrow> if acc_IsActive old \<noteq> b then Some b else None)"
      define needs where "needs = (y \<noteq> [] \<or> t \<noteq> [] \<or> snd (bootstrap_token acc old) \<or> act \<noteq> None)"
      have be: "bootstrap_entry e w acc =
              (if needs
               then snd (UpdateAccountMapping e w2 (acc_ID old) y t (fst (bootstrap_token acc old)) act)
               else w2)"
        unfolding unf r2old y_def t_def act_def needs_def
        by (cases "bs_YouTubeChannelID acc = acc_YouTubeChannelID old";
            cases "bs_TikTokAccountID acc = acc_TikTokAccountID old";
            cases "snd (bootstrap_token acc old)"; cases "bs_IsActive acc")
           (simp_all add: Let_def case_prod_beta valid)
      let ?U = "snd (UpdateAccountMapping e w2 (acc_ID old) y t (fst (bootstrap_token acc old)) act)"
      have c: "bootstrap_entry e w acc = w2 \<or> bootstrap_entry e w acc = ?U"
        using be by (cases needs) simp_all
      have d: "snd (bootstrap_token acc old) \<longrightarrow> bootstrap_entry e w acc = ?U"
        using be by (simp add: needs_def)
      show ?thesis
        using a2 c d unfolding y_def t_def act_def by (intro exI[of _ w2]) blast
    qed
  qed
qed

lemma bootstrap_token_cases:
  "fst (bootstrap_token acc old) = [] \<or>
   (acc_TikTokAccessToken old = [] \<and> fst (bootstrap_token acc old) = bs_TikTokAccessToken acc)"
  "acc_TikTokAccessToken old = [] \<Longrightarrow> bs_TikTokAccessToken acc \<noteq> [] \<Longrightarrow>
     bootstrap_token acc old = (bs_TikTokAccessToken acc, True)"
  by (auto simp: bootstrap_token_def)

lemma bootstrap_entry_stored:
  assumes ids: "distinct (map acc_ID (accounts w))"
      and valid: "bs_YouTubeChannelID acc \<noteq> []" "bs_TikTokAccountID acc \<noteq> []"
      and m: "find (\<lambda>r. acc_TikTokAccountID r = bs_TikTokAccountID acc) (accounts w) = Some old \<or>
              (find (\<lambda>r. acc_TikTokAccountID r = bs_TikTokAccountID acc) (accounts w) = None \<and>
               find (\<lambda>r. acc_YouTubeChannelID r = bs_YouTubeChannelID acc) (accounts w) = Some old)"
      and idne: "acc_ID old \<noteq> []"
  shows "\<exists>new. find (\<lambda>r. acc_ID r = acc_ID old) (accounts (bootstrap_entry e w acc)) = Some new \<and>
           acc_TikTokRefreshToken new = acc_TikTokRefreshToken old \<and>
           (acc_TikTokAccessToken new = acc_TikTokAccessToken old \<or>
            (acc_TikTokAccessToken old = [] \<and>
             acc_TikTokAccessToken new = bs_TikTokAccessToken acc)) \<and>
           ((\<forall>n. db_err e n = None) \<and> acc_TikTokAccessToken old = [] \<and>
            bs_TikTokAccessToken acc \<noteq> [] \<and>
            (\<forall>r \<in> set (accounts w). acc_ID r = acc_ID old \<or>
               (acc_YouTubeChannelID r \<noteq> bs_YouTubeChannelID acc \<and>
                acc_TikTokAccountID r \<noteq> bs_TikTokAccountID acc))
            \<longrightarrow> acc_TikTokAccessToken new = bs_TikTokAccessToken acc)"
proof -
  let ?y = "if bs_YouTubeChannelID acc \<noteq> acc_YouTubeChannelID old
            then bs_YouTubeChannelID acc else []"
  let ?t = "if bs_TikTokAccountID acc \<noteq> acc_TikTokAccountID old
            then bs_TikTokAccountID acc else []"
  let ?k = "fst (bootstrap_token acc old)"
  let ?act = "case bs_IsActive acc of None \<Rightarrow> None
              | Some b \<Rightarrow> if acc_IsActive old \<noteq> b then Some b else None"
  have mem: "old \<in> set (accounts w)" using m find_in_set by metis
  have old: "find (\<lambda>r. acc_ID r = acc_ID old) (accounts w) = Some old"
    using find_distinct[OF ids mem] .
  obtain w2 where w2: "accounts w2 = accounts w"
    and c: "bootstrap_entry e w acc = w2 \<or>
            bootstrap_entry e w acc = snd (UpdateAccountMapping e w2 (acc_ID old) ?y ?t ?k ?act)"
    and d: "(\<forall>n. db_err e n = None) \<and> snd (bootstrap_token acc old) \<longrightarrow>
            bootstrap_entry e w acc = snd (UpdateAccountMapping e w2 (acc_ID old) ?y ?t ?k ?act)"
    using bootstrap_entry_existing[OF valid m, of e] by blast
  obtain res w3 where run: "UpdateAccountMapping e w2 (acc_ID old) ?y ?t ?k ?act = (res, w3)"
    by (cases "UpdateAccountMapping e w2 (acc_ID old) ?y ?t ?k ?act")
  have old2: "find (\<lambda>r. acc_ID r = acc_ID old) (accounts w2) = Some old" using old w2 by simp
  from UpdateAccountMapping_token[OF run old2 idne]
  obtain new where new: "find (\<lambda>r. acc_ID r = acc_ID old) (accounts w3) = Some new"
    and nr: "acc_TikTokRefreshToken new = acc_TikTokRefreshToken old"
    and nt: "acc_TikTokAccessToken new =
               (if isl res \<or> ?k = [] then acc_TikTokAccessToken old else ?k)"
    and ok: "db_err e (db_ops w2) = None \<and> db_err e (Suc (db_ops w2)) = None \<and>
            \<not> list_ex (\<lambda>r. acc_ID r \<noteq> acc_ID old \<and>
                    (acc_YouTubeChannelID r = (if ?y = [] then acc_YouTubeChannelID old else ?y) \<or>
                     acc_TikTokAccountID r = (if ?t = [] then acc_TikTokAccountID old else ?t)))
                  (accounts w2)
            \<longrightarrow> \<not> isl res"
    by blast
  have ey: "(if ?y = [] then acc_YouTubeChannelID old else ?y) = bs_YouTubeChannelID acc"
    using valid by simp
  have et: "(if ?t = [] then acc_TikTokAccountID old else ?t) = bs_TikTokAccountID acc"
    using valid by simp
  have nt': "acc_TikTokAccessToken new = acc_TikTokAccessToken old \<or>
            (acc_TikTokAccessToken old = [] \<and>
             acc_TikTokAccessToken new = bs_TikTokAccessToken acc)"
    using nt bootstrap_token_cases(1)[of acc old] by auto
  show ?thesis
  proof (cases "bootstrap_entry e w acc = w3")
    case True
    have pos: "acc_TikTokAccessToken new = bs_TikTokAccessToken acc"
      if nf: "\<forall>n. db_err e n = None" and e: "acc_TikTokAccessToken old = []"
        and k: "bs_TikTokAccessToken acc \<noteq> []"
        and oth: "\<forall>r \<in> set (accounts w). acc_ID r = acc_ID old \<or>
               (acc_YouTubeChannelID r \<noteq> bs_YouTubeChannelID acc \<and>
                acc_TikTokAccountID r \<noteq> bs_TikTokAccountID acc)"
    proof -
      have "\<not> list_ex (\<lambda>r. acc_ID r \<noteq> acc_ID old \<and>
                    (acc_YouTubeChannelID r = bs_YouTubeChannelID acc \<or>
                     acc_TikTokAccountID r = bs_TikTokAccountID acc)) (accounts w2)"
        using oth w2 by (auto simp: list_ex_iff)
      then have "\<not> isl res" using ok nf unfolding ey et by simp
      moreover have "?k = bs_TikTokAccessToken acc"
        using bootstrap_token_cases(2)[OF e k] by simp
      ultimately show ?thesis using nt k by simp
    qed
    show ?thesis
      using new nr nt' pos unfolding True by blast
  next
    case False
    then have u: "bootstrap_entry e w acc = w2" using c run by auto
    have "\<not> ((\<forall>n. db_err e n = None) \<and> acc_TikTokAccessToken old = [] \<and>
            bs_TikTokAccessToken acc \<noteq> [])"
      using d False run bootstrap_token_cases(2)[of old acc] by auto
    then show ?thesis using old2 unfolding u by blast
  qed
qed

lemma find_conj_None: "find Q xs = None \<Longrightarrow> find (\<lambda>r. P r \<and> Q r) xs = None"
  by (auto simp: find_None_iff)

lemma find_append_None:
  "find P xs = None \<Longrightarrow> find P (xs @ [a]) = (if P a then Some a else None)"
  by (induction xs) (auto split: if_splits)

lemma CreateAccountMapping_new:
  assumes y: "y \<noteq> []" and t: "t \<noteq> []" and k: "k \<noteq> []"
      and ny: "find (\<lambda>r. acc_YouTubeChannelID r = y) (accounts w) = None"
      and nt: "find (\<lambda>r. acc_TikTokAccountID r = t) (accounts w) = None"
      and nf: "\<forall>n. db_err e n = None"
      and fresh: "new_uuid e (uuids w) \<notin> set (map acc_ID (accounts w))"
  shows "\<exists>a w'. CreateAccountMapping e w y t k = (Inr a, w') \<and>
           acc_ID a = new_uuid e (uuids w) \<and> acc_YouTubeChannelID a = y \<and>
           acc_TikTokAccountID a = t \<and> acc_TikTokAccessToken a = k \<and>
           acc_TikTokRefreshToken a = [] \<and> accounts w' = accounts w @ [a]"
proof -
  have nyt: "find (\<lambda>r. acc_YouTubeChannelID r = y \<and> acc_TikTokAccountID r = t) (accounts w) = None"
    using find_conj_None[OF nt] .
  have noclash: "\<And>r. r \<in> set (accounts w) \<Longrightarrow>
                  acc_YouTubeChannelID r \<noteq> y \<and> acc_TikTokAccountID r \<noteq> t"
    using ny nt by (auto simp: find_None_iff)
  have noid: "\<And>r. r \<in> set (accounts w) \<Longrightarrow> acc_ID r \<noteq> new_uuid e (uuids w)"
    using fresh by (metis image_eqI set_map)
  show ?thesis
    using y t k nyt ny nt nf noclash noid
    by (simp add: CreateAccountMapping_def GetByYouTubeAndTikTok_def GetByYouTubeChannelID_def
        GetByTikTokAccountID_def db_stmt_def time_Now_def uuid_NewString_def account_Save_def
        Let_def accounts_clash_def accounts_upsert_def list_ex_iff account_row_def
        nullableTimePtr_def)
qed

lemma DeactivateAccountMapping_token:
  assumes old: "find (\<lambda>r. acc_ID r = i) (accounts w) = Some old" and i: "i \<noteq> []"
  shows "\<exists>new. find (\<lambda>r. acc_ID r = i) (accounts (snd (DeactivateAccountMapping e w i))) = Some new \<and>
           acc_YouTubeChannelID new = acc_YouTubeChannelID old \<and>
           acc_TikTokAccountID new = acc_TikTokAccountID old \<and>
           acc_TikTokAccessToken new = acc_TikTokAccessToken old \<and>
           acc_TikTokRefreshToken new = acc_TikTokRefreshToken old"
proof -
  obtain r1 w1 where g: "GetByID e w i = (r1, w1)" by (cases "GetByID e w i")
  note g1 = GetByID_cases[OF g]
  have idold: "acc_ID old = i" using old by (auto simp: find_Some_iff)
  show ?thesis
  proof (cases "db_err e (db_ops w)")
    case (Some er)
    then have "r1 = Inl er" using g1 by simp
    then have "accounts (snd (DeactivateAccountMapping e w i)) = accounts w"
      using g g1 by (simp add: DeactivateAccountMapping_def)
    then show ?thesis using old by simp
  next
    case None
    then have r1: "r1 = Inr (Some old)" using g1 old by simp
    obtain now w2 where n: "time_Now e w1 = (now, w2)" by (cases "time_Now e w1")
    let ?a = "old\<lparr>acc_IsActive := False, acc_UpdatedAt := now\<rparr>"
    obtain r a5 w3 where s: "account_Save e w2 ?a = (r, a5, w3)"
      by (cases "account_Save e w2 ?a")
    have w2: "accounts w2 = accounts w"
      using n g1 by (auto simp: time_Now_def)
    have ida: "acc_ID ?a \<noteq> []" using idold i by simp
    have s1: "a5 = ?a\<lparr>acc_UpdatedAt := clock e (ticks w2)\<rparr>"
       "if r = None then accounts w3 = accounts_upsert (accounts w) a5
        else accounts w3 = accounts w"
      using account_Save_known_id[OF s ida] w2 by auto
    have res: "snd (DeactivateAccountMapping e w i) = w3"
      using g r1 n s by (simp add: DeactivateAccountMapping_def)
    show ?thesis
    proof (cases r)
      case (Some er)
      then show ?thesis using res s1 old by simp
    next
      case None
      have "find (\<lambda>r. acc_ID r = i) (accounts w3) =
              Some ((account_row a5)\<lparr>acc_CreatedAt := acc_CreatedAt old\<rparr>)"
        using find_accounts_upsert[OF old, of a5] s1 None idold by simp
      then show ?thesis using res s1
        by (simp add: account_row_def)
    qed
  qed
qed

lemma bootstrap_entry_new:
  assumes valid: "bs_YouTubeChannelID acc \<noteq> []" "bs_TikTokAccountID acc \<noteq> []"
      and nt: "find (\<lambda>r. acc_TikTokAccountID r = bs_TikTokAccountID acc) (accounts w) = None"
      and ny: "find (\<lambda>r. acc_YouTubeChannelID r = bs_YouTubeChannelID acc) (accounts w) = None"
      and nf: "\<forall>n. db_err e n = None"
      and u: "new_uuid e (uuids w) \<noteq> []"
      and fresh: "new_uuid e (uuids w) \<notin> set (map acc_ID (accounts w))"
  shows "\<exists>row \<in> set (accounts (bootstrap_entry e w acc)).
           acc_YouTubeChannelID row = bs_YouTubeChannelID acc \<and>
           acc_TikTokAccountID row = bs_TikTokAccountID acc \<and>
           acc_TikTokAccessToken row =
             (if bs_TikTokAccessToken acc = [] then placeholder_token
              else bs_TikTokAccessToken acc) \<and>
           acc_TikTokRefreshToken row = []"
proof -
  let ?k = "if bs_TikTokAccessToken acc = [] then placeholder_token else bs_TikTokAccessToken acc"
  have k: "?k \<noteq> []" by (simp add: placeholder_token_def)
  obtain w1 where g1: "GetByTikTokAccountID e w (bs_TikTokAccountID acc) = (Inr None, w1)"
    and a1: "accounts w1 = accounts w" "uuids w1 = uuids w"
    using nf nt by (simp add: GetByTikTokAccountID_def db_stmt_def)
  obtain w2 where g2: "GetByYouTubeChannelID e w1 (bs_YouTubeChannelID acc) = (Inr None, w2)"
    and a2: "accounts w2 = accounts w" "uuids w2 = uuids w"
    using nf ny a1 by (simp add: GetByYouTubeChannelID_def db_stmt_def)
  have fresh2: "new_uuid e (uuids w2) \<notin> set (map acc_ID (accounts w2))"
    using fresh a2 by simp
  from CreateAccountMapping_new[OF valid k _ _ nf fresh2]
  obtain a w3 where cr: "CreateAccountMapping e w2 (bs_YouTubeChannelID acc)
                           (bs_TikTokAccountID acc) ?k = (Inr a, w3)"
    and af: "acc_ID a = new_uuid e (uuids w)" "acc_YouTubeChannelID a = bs_YouTubeChannelID acc"
            "acc_TikTokAccountID a = bs_TikTokAccountID acc" "acc_TikTokAccessToken a = ?k"
            "acc_TikTokRefreshToken a = []"
    and a3: "accounts w3 = accounts w @ [a]"
    using ny nt a2 by auto
  have unf: "bootstrap_entry e w acc =
               (if bs_IsActive acc = Some False
                then snd (DeactivateAccountMapping e w3 (acc_ID a)) else w3)"
    unfolding bootstrap_entry_def
    by (simp only: valid g1 g2 cr Let_def if_False if_True prod.case sum.case option.case
          simp_thms not_False_eq_True)
  show ?thesis
  proof (cases "bs_IsActive acc = Some False")
    case False
    then show ?thesis using unf a3 af by simp
  next
    case True
    have "find (\<lambda>r. acc_ID r = acc_ID a) (accounts w) = None"
      using fresh af(1) unfolding find_None_iff by (metis image_eqI set_map)
    then have f: "find (\<lambda>r. acc_ID r = acc_ID a) (accounts w3) = Some a"
      unfolding a3 by (simp add: find_append_None)
    have ne: "acc_ID a \<noteq> []" using u af(1) by simp
    from DeactivateAccountMapping_token[OF f ne, of e]
    obtain new where
      "find (\<lambda>r. acc_ID r = acc_ID a) (accounts (snd (DeactivateAccountMapping e w3 (acc_ID a)))) = Some new"
      "acc_YouTubeChannelID new = acc_YouTubeChannelID a"
      "acc_TikTokAccountID new = acc_TikTokAccountID a"
      "acc_TikTokAccessToken new = acc_TikTokAccessToken a"
      "acc_TikTokRefreshToken new = acc_TikTokRefreshToken a"
      by blast
    then show ?thesis using unf True af find_in_set by (metis (no_types, lifting))
  qed
qed

text \<open>
  C9. One round of \<open>bootstrapAccounts\<close>, for an entry with both ids and a table whose
  ids are distinct. Where the entry matches a stored account (by TikTok account id, else by
  channel id), the round leaves the refresh token, and it leaves the access token unless
  the stored access token is empty, in which case the new one is the configured token; a
  stored access token that is not empty is never replaced, with or without a refresh
  token. The empty stored token is indeed replaced by a configured one when no statement
  fails and no other account holds the ids of the entry. Where no account matches, no
  statement fails and the new id is fresh, the round leaves an account with the ids of the
  entry, no refresh token, and the configured token, or the placeholder when the entry has
  none.
\<close>

theorem bootstrap_entry_token_policy:
  assumes ids: "distinct (map acc_ID (accounts w))"
      and valid: "bs_YouTubeChannelID acc \<noteq> []" "bs_TikTokAccountID acc \<noteq> []"
  shows "(\<forall>old.
           (find (\<lambda>r. acc_TikTokAccountID r = bs_TikTokAccountID acc) (accounts w) = Some old \<or>
            (find (\<lambda>r. acc_TikTokAccountID r = bs_TikTokAccountID acc) (accounts w) = None \<and>
             find (\<lambda>r. acc_YouTubeChannelID r = bs_YouTubeChannelID acc) (accounts w) = Some old)) \<and>
           acc_ID old \<noteq> [] \<longrightarrow>
           (\<exists>new. find (\<lambda>r. acc_ID r = acc_ID old) (accounts (bootstrap_entry e w acc)) = Some new \<and>
              acc_TikTokRefreshToken new = acc_TikTokRefreshToken old \<and>
              (acc_TikTokAccessToken new = acc_TikTokAccessToken old \<or>
               (acc_TikTokAccessToken old = [] \<and>
                acc_TikTokAccessToken new = bs_TikTokAccessToken acc)) \<and>
              ((\<forall>n. db_err e n = None) \<and> acc_TikTokAccessToken old = [] \<and>
               bs_TikTokAccessToken acc \<noteq> [] \<and>
               (\<forall>r \<in> set (accounts w). acc_ID r = acc_ID old \<or>
                  (acc_YouTubeChannelID r \<noteq> bs_YouTubeChannelID acc \<and>
                   acc_TikTokAccountID r \<noteq> bs_TikTokAccountID acc))
               \<longrightarrow> acc_TikTokAccessToken new = bs_TikTokAccessToken acc))) \<and>
         (find (\<lambda>r. acc_TikTokAccountID r = bs_TikTokAccountID acc) (accounts w) = None \<and>
          find (\<lambda>r. acc_YouTubeChannelID r = bs_YouTubeChannelID acc) (accounts w) = None \<and>
          (\<forall>n. db_err e n = None) \<and> new_uuid e (uuids w) \<noteq> [] \<and>
          new_uuid e (uuids w) \<notin> set (map acc_ID (accounts w)) \<longrightarrow>
          (\<exists>row \<in> set (accounts (bootstrap_entry e w acc)).
             acc_YouTubeChannelID row = bs_YouTubeChannelID acc \<and>
             acc_TikTokAccountID row = bs_TikTokAccountID acc \<and>
             acc_TikTokAccessToken row =
               (if bs_TikTokAccessToken acc = [] then placeholder_token
                else bs_TikTokAccessToken acc) \<and>
             acc_TikTokRefreshToken row = []))"
proof (intro conjI allI impI)
  fix old
  assume a: "(find (\<lambda>r. acc_TikTokAccountID r = bs_TikTokAccountID acc) (accounts w) = Some old \<or>
            (find (\<lambda>r. acc_TikTokAccountID r = bs_TikTokAccountID acc) (accounts w) = None \<and>
             find (\<lambda>r. acc_YouTubeChannelID r = bs_YouTubeChannelID acc) (accounts w) = Some old)) \<and>
           acc_ID old \<noteq> []"
  show "\<exists>new. find (\<lambda>r. acc_ID r = acc_ID old) (accounts (bootstrap_entry e w acc)) = Some new \<and>
              acc_TikTokRefreshToken new = acc_TikTokRefreshToken old \<and>
              (acc_TikTokAccessToken new = acc_TikTokAccessToken old \<or>
               (acc_TikTokAccessToken old = [] \<and>
                acc_TikTokAccessToken new = bs_TikTokAccessToken acc)) \<and>
              ((\<forall>n. db_err e n = None) \<and> acc_TikTokAccessToken old = [] \<and>
               bs_TikTokAccessToken acc \<noteq> [] \<and>
               (\<forall>r \<in> set (accounts w). acc_ID r = acc_ID old \<or>
                  (acc_YouTubeChannelID r \<noteq> bs_YouTubeChannelID acc \<and>
                   acc_TikTokAccountID r \<noteq> bs_TikTokAccountID acc))
               \<longrightarrow> acc_TikTokAccessToken new = bs_TikTokAccessToken acc)"
    using bootstrap_entry_stored[OF ids valid a[THEN conjunct1] a[THEN conjunct2], of e] .
next
  assume b: "find (\<lambda>r. acc_TikTokAccountID r = bs_TikTokAccountID acc) (accounts w) = None \<and>
          find (\<lambda>r. acc_YouTubeChannelID r = bs_YouTubeChannelID acc) (accounts w) = None \<and>
          (\<forall>n. db_err e n = None) \<and> new_uuid e (uuids w) \<noteq> [] \<and>
          new_uuid e (uuids w) \<notin> set (map acc_ID (accounts w))"
  show "\<exists>row \<in> set (accounts (bootstrap_entry e w acc)).
             acc_YouTubeChannelID row = bs_YouTubeChannelID acc \<and>
             acc_TikTokAccountID row = bs_TikTokAccountID acc \<and>
             acc_TikTokAccessToken row =
               (if bs_TikTokAccessToken acc = [] then placeholder_token
                else bs_TikTokAccessToken acc) \<and>
             acc_TikTokRefreshToken row = []"
    using bootstrap_entry_new[OF valid b[THEN conjunct1] b[THEN conjunct2, THEN conjunct1]
        b[THEN conjunct2, THEN conjunct2, THEN conjunct1]
        b[THEN conjunct2, THEN conjunct2, THEN conjunct2, THEN conjunct1]
        b[THEN conjunct2, THEN conjunct2, THEN conjunct2, THEN conjunct2]] .
qed

theorem bootstrap_entry_token_policy_witness:
  "distinct (map acc_ID (accounts world0)) \<and>
   find (\<lambda>r. acc_TikTokAccountID r = bs_TikTokAccountID entry_stored) (accounts world0) = Some acct0 \<and>
   (\<exists>new. find (\<lambda>r. acc_ID r = ''a1'') (accounts (bootstrap_entry env0 world0 entry_stored)) = Some new \<and>
      acc_TikTokAccessToken new = ''T0'' \<and> acc_TikTokRefreshToken new = ''R0'') \<and>
   find (\<lambda>r. acc_TikTokAccountID r = bs_TikTokAccountID entry_new) (accounts world0) = None \<and>
   find (\<lambda>r. acc_YouTubeChannelID r = bs_YouTubeChannelID entry_new) (accounts world0) = None \<and>
   (\<exists>row \<in> set (accounts (bootstrap_entry env0 world0 entry_new)).
      acc_YouTubeChannelID row = ''UCnew'' \<and> acc_TikTokAccountID row = ''ttk999'' \<and>
      acc_TikTokAccessToken row = ''PLACEHOLDER_TOKEN_UPDATE_VIA_EXCHANGE_CODE_API'')"
proof -
  have ids: "distinct (map acc_ID (accounts world0))" by (simp add: world0_def)
  have v1: "bs_YouTubeChannelID entry_stored \<noteq> []" "bs_TikTokAccountID entry_stored \<noteq> []"
    by (simp_all add: entry_stored_def)
  have v2: "bs_YouTubeChannelID entry_new \<noteq> []" "bs_TikTokAccountID entry_new \<noteq> []"
    by (simp_all add: entry_new_def)
  have m: "find (\<lambda>r. acc_TikTokAccountID r = bs_TikTokAccountID entry_stored) (accounts world0) = Some acct0"
    by (simp add: world0_def acct0_def entry_stored_def)
  have old: "acc_ID acct0 = ''a1''" "acc_TikTokAccessToken acct0 = ''T0''"
    "acc_TikTokRefreshToken acct0 = ''R0''"
    by (simp_all add: acct0_def)
  have n1: "find (\<lambda>r. acc_TikTokAccountID r = bs_TikTokAccountID entry_new) (accounts world0) = None"
    by (simp add: world0_def acct0_def entry_new_def)
  have n2: "find (\<lambda>r. acc_YouTubeChannelID r = bs_YouTubeChannelID entry_new) (accounts world0) = None"
    by (simp add: world0_def acct0_def entry_new_def)
  have nf: "\<forall>n. db_err env0 n = None" by (simp add: env0_def)
  have u: "new_uuid env0 (uuids world0) \<noteq> []"
    "new_uuid env0 (uuids world0) \<notin> set (map acc_ID (accounts world0))"
    by (simp_all add: env0_def world0_def acct0_def)
  have e2: "bs_YouTubeChannelID entry_new = ''UCnew''" "bs_TikTokAccountID entry_new = ''ttk999''"
    "bs_TikTokAccessToken entry_new = []"
    by (simp_all add: entry_new_def)
  have A: "\<exists>new. find (\<lambda>r. acc_ID r = ''a1'') (accounts (bootstrap_entry env0 world0 entry_stored)) = Some new \<and>
      acc_TikTokAccessToken new = ''T0'' \<and> acc_TikTokRefreshToken new = ''R0''"
    using bootstrap_entry_token_policy[OF ids v1, of env0, THEN conjunct1, rule_format, of acct0]
      m old by auto
  have B: "\<exists>row \<in> set (accounts (bootstrap_entry env0 world0 entry_new)).
      acc_YouTubeChannelID row = ''UCnew'' \<and> acc_TikTokAccountID row = ''ttk999'' \<and>
      acc_TikTokAccessToken row = ''PLACEHOLDER_TOKEN_UPDATE_VIA_EXCHANGE_CODE_API''"
    using bootstrap_entry_token_policy[OF ids v2, of env0, THEN conjunct2] n1 n2 nf u
    unfolding e2 placeholder_token_def by auto
  show ?thesis using ids m A n1 n2 B by blast
qed

text \<open>
  The claim as the specification words it fails for a stored account that has a refresh
  token and an empty access token: the configured token is written.
\<close>

theorem bootstrapAccounts_overwrites_with_refresh_token:
  "map acc_TikTokAccessToken (accounts world_no_access) = [[]] \<and>
   map acc_TikTokRefreshToken (accounts world_no_access) = [''R0''] \<and>
   map acc_TikTokAccessToken
     (accounts (bootstrapAccounts env0 world_no_access (cfg0\<lparr>BootstrapAccounts := [entry_stored]\<rparr>)))
     = [''T9''] \<and>
   map acc_TikTokRefreshToken
     (accounts (bootstrapAccounts env0 world_no_access (cfg0\<lparr>BootstrapAccounts := [entry_stored]\<rparr>)))
     = [''R0'']"
  by code_simp


section \<open>Properties of the admission\<close>

lemma filter_update_count:
  "i < length xs \<Longrightarrow>
   length (filter P (xs[i := y])) + (if P (xs ! i) then 1 else 0) =
   length (filter P xs) + (if P y then 1 else 0)"
proof (induction xs arbitrary: i)
  case Nil
  then show ?case by simp
next
  case (Cons a xs)
  then show ?case by (cases i) auto
qed

lemma running_update:
  assumes "\<And>d. Running d \<in> set xs \<Longrightarrow> d \<le> b" and "\<And>d. p = Running d \<Longrightarrow> d \<le> b"
  shows "Running d \<in> set (xs[i := p]) \<Longrightarrow> d \<le> b"
  using assms set_update_subset_insert[of xs i p] by blast

lemma admittedI:
  assumes "processingLimiter s = length (filter is_running (immediate s))"
      and "workerPool s = length (filter (\<lambda>p. p = BatchRunning) (batch s))"
      and "int (length (filter is_running (immediate s))) \<le> limiterSize cfg"
      and "int (length (filter (\<lambda>p. p = BatchRunning) (batch s))) \<le> max 0 (WorkerPoolSize cfg)"
      and "\<And>d. Running d \<in> set (immediate s) \<Longrightarrow> d \<le> processCtx_deadline (wall s)"
  shows "admitted cfg s"
  using assms unfolding admitted_def immediate_running_def batch_running_def by blast

lemma admittedD:
  assumes "admitted cfg s"
  shows "processingLimiter s = length (filter is_running (immediate s))"
    and "workerPool s = length (filter (\<lambda>p. p = BatchRunning) (batch s))"
    and "int (length (filter is_running (immediate s))) \<le> limiterSize cfg"
    and "int (length (filter (\<lambda>p. p = BatchRunning) (batch s))) \<le> max 0 (WorkerPoolSize cfg)"
    and "\<And>d. Running d \<in> set (immediate s) \<Longrightarrow> d \<le> processCtx_deadline (wall s)"
  using assms unfolding admitted_def immediate_running_def batch_running_def by blast+

lemma admitted_started: "admitted cfg (started t)"
  by (rule admittedI) (simp_all add: started_def limiterSize_def)

lemma admitted_step:
  assumes inv: "admitted cfg s" and st: "step cfg s ev = Some s'"
  shows "admitted cfg s'"
proof (cases ev)
  case LaunchImmediate
  then have s': "s' = s\<lparr>immediate := immediate s @ [Waiting]\<rparr>"
    using st by (simp add: step_def)
  show ?thesis unfolding s'
    by (rule admittedI) (use admittedD[OF inv] in \<open>auto simp: is_running_def\<close>)
next
  case (AcquireProcessingSlot i)
  then have c: "i < length (immediate s)" "immediate s ! i = Waiting"
     "int (processingLimiter s) < limiterSize cfg"
    and s': "s' = s\<lparr>processingLimiter := Suc (processingLimiter s),
                       immediate := (immediate s)[i := Running (processCtx_deadline (wall s))]\<rparr>"
    using st by (auto simp: step_def split: if_splits)
  have n: "length (filter is_running ((immediate s)[i := Running (processCtx_deadline (wall s))])) =
        Suc (length (filter is_running (immediate s)))"
    using filter_update_count[OF c(1), of is_running "Running (processCtx_deadline (wall s))"] c(2)
    by (simp add: is_running_def)
  have r: "\<And>d. Running d \<in> set ((immediate s)[i := Running (processCtx_deadline (wall s))])
                   \<Longrightarrow> d \<le> processCtx_deadline (wall s)"
    by (rule running_update[OF admittedD(5)[OF inv]]) auto
  show ?thesis unfolding s'
    by (rule admittedI) (use admittedD(1-4)[OF inv] n r c(3) in simp_all)
next
  case (SkipImmediate i)
  then have c: "i < length (immediate s)" "immediate s ! i = Waiting"
    and s': "s' = s\<lparr>immediate := (immediate s)[i := Skipped]\<rparr>"
    using st by (auto simp: step_def split: if_splits)
  have n: "length (filter is_running ((immediate s)[i := Skipped])) =
        length (filter is_running (immediate s))"
    using filter_update_count[OF c(1), of is_running Skipped] c(2)
    by (simp add: is_running_def)
  have r: "\<And>d. Running d \<in> set ((immediate s)[i := Skipped])
                   \<Longrightarrow> d \<le> processCtx_deadline (wall s)"
    by (rule running_update[OF admittedD(5)[OF inv]]) auto
  show ?thesis unfolding s'
    by (rule admittedI) (use admittedD(1-4)[OF inv] n r in simp_all)
next
  case (ImmediateReturns i)
  then have c: "i < length (immediate s)" "is_running (immediate s ! i)"
    and s': "s' = s\<lparr>processingLimiter :=
                         (if processingLimiter s > 0 then processingLimiter s - 1
                          else processingLimiter s),
                       immediate := (immediate s)[i := Finished]\<rparr>"
    using st by (auto simp: step_def split: if_splits)
  have n: "Suc (length (filter is_running ((immediate s)[i := Finished]))) =
        length (filter is_running (immediate s))"
    using filter_update_count[OF c(1), of is_running Finished] c(2)
    by (simp add: is_running_def)
  have r: "\<And>d. Running d \<in> set ((immediate s)[i := Finished])
                   \<Longrightarrow> d \<le> processCtx_deadline (wall s)"
    by (rule running_update[OF admittedD(5)[OF inv]]) auto
  have l: "(if processingLimiter s > 0 then processingLimiter s - 1 else processingLimiter s) =
           length (filter is_running ((immediate s)[i := Finished]))"
    using admittedD(1)[OF inv] n by (simp only: split: if_split) linarith
  have b: "int (length (filter is_running ((immediate s)[i := Finished]))) \<le> limiterSize cfg"
    using admittedD(3)[OF inv] n by simp
  show ?thesis unfolding s'
    by (rule admittedI) (use admittedD(2,4)[OF inv] l b r in simp_all)
next
  case SpawnBatch
  then have s': "s' = s\<lparr>batch := batch s @ [BatchWaiting]\<rparr>"
    using st by (simp add: step_def)
  show ?thesis unfolding s'
    by (rule admittedI) (use admittedD[OF inv] in simp_all)
next
  case (AcquireWorker i)
  then have c: "i < length (batch s)" "batch s ! i = BatchWaiting"
     "int (workerPool s) < WorkerPoolSize cfg"
    and s': "s' = s\<lparr>workerPool := Suc (workerPool s), batch := (batch s)[i := BatchRunning]\<rparr>"
    using st by (auto simp: step_def split: if_splits)
  have n: "length (filter (\<lambda>p. p = BatchRunning) ((batch s)[i := BatchRunning])) =
        Suc (length (filter (\<lambda>p. p = BatchRunning) (batch s)))"
    using filter_update_count[OF c(1), of "\<lambda>p. p = BatchRunning" BatchRunning] c(2) by simp
  show ?thesis unfolding s'
    by (rule admittedI) (use admittedD[OF inv] n c(3) in simp_all)
next
  case (BatchReturns i)
  then have c: "i < length (batch s)" "batch s ! i = BatchRunning" "workerPool s > 0"
    and s': "s' = s\<lparr>workerPool := workerPool s - 1, batch := (batch s)[i := BatchFinished]\<rparr>"
    using st by (auto simp: step_def split: if_splits)
  have n: "Suc (length (filter (\<lambda>p. p = BatchRunning) ((batch s)[i := BatchFinished]))) =
        length (filter (\<lambda>p. p = BatchRunning) (batch s))"
    using filter_update_count[OF c(1), of "\<lambda>p. p = BatchRunning" BatchFinished] c(2) by simp
  have l: "workerPool s - 1 = length (filter (\<lambda>p. p = BatchRunning) ((batch s)[i := BatchFinished]))"
    using admittedD(2)[OF inv] n by simp
  have b: "int (length (filter (\<lambda>p. p = BatchRunning) ((batch s)[i := BatchFinished])))
             \<le> max 0 (WorkerPoolSize cfg)"
    using admittedD(4)[OF inv] n by simp
  show ?thesis unfolding s'
    by (rule admittedI) (use admittedD(1,3,5)[OF inv] l b in simp_all)
next
  case (Advance d)
  then have d: "0 \<le> d" and s': "s' = s\<lparr>wall := wall s + d\<rparr>"
    using st by (auto simp: step_def split: if_splits)
  have r: "\<And>x. Running x \<in> set (immediate s) \<Longrightarrow> x \<le> processCtx_deadline (wall s + d)"
    using admittedD(5)[OF inv] d by (fastforce simp: processCtx_deadline_def)
  show ?thesis unfolding s'
    by (rule admittedI) (use admittedD(1-4)[OF inv] r in simp_all)
next
  case CancelBase
  then have s': "s' = s\<lparr>baseDone := True\<rparr>"
    using st by (simp add: step_def)
  show ?thesis unfolding s'
    by (rule admittedI) (use admittedD[OF inv] in simp_all)
qed

lemma admitted_run:
  "admitted cfg s \<Longrightarrow> run cfg s evs = Some s' \<Longrightarrow> admitted cfg s'"
proof (induction evs arbitrary: s)
  case Nil
  then show ?case by simp
next
  case (Cons ev evs)
  from Cons.prems(2) obtain s1 where s1: "step cfg s ev = Some s1" "run cfg s1 evs = Some s'"
    by (auto split: option.splits)
  show ?case using Cons.IH[OF admitted_step[OF Cons.prems(1) s1(1)] s1(2)] .
qed

text \<open>
  C7. In every state that the goroutines can reach from the start, the goroutines of
  \<open>launchImmediateProcessing\<close> that run are as many as the values in
  \<open>processingLimiter\<close> and at most \<open>limiterSize\<close> (the worker pool size, or 1), the
  goroutines of a batch that run are as many as the values in \<open>workerPool\<close> and at most
  the worker pool size, and the context of a running immediate goroutine ends at most 30
  minutes ahead. An immediate goroutine that gets its slot takes it from
  \<open>processingLimiter\<close> and leaves \<open>workerPool\<close> as it is, and its context ends 30
  minutes after that moment; a goroutine of a batch that gets its worker leaves
  \<open>processingLimiter\<close> as it is.
\<close>

theorem immediate_processing_admission:
  assumes r: "run cfg (started t) evs = Some s"
  shows "processingLimiter s = immediate_running s \<and> workerPool s = batch_running s \<and>
         int (immediate_running s) \<le> limiterSize cfg \<and>
         int (batch_running s) \<le> max 0 (WorkerPoolSize cfg) \<and>
         (\<forall>d. Running d \<in> set (immediate s) \<longrightarrow> d \<le> wall s + 30 * Minute) \<and>
         (\<forall>i s'. step cfg s (AcquireProcessingSlot i) = Some s' \<longrightarrow>
            immediate s' ! i = Running (wall s + 30 * Minute) \<and>
            processingLimiter s' = Suc (processingLimiter s) \<and> workerPool s' = workerPool s) \<and>
         (\<forall>i s'. step cfg s (AcquireWorker i) = Some s' \<longrightarrow>
            workerPool s' = Suc (workerPool s) \<and> processingLimiter s' = processingLimiter s)"
proof -
  have a: "admitted cfg s" using admitted_run[OF admitted_started r] .
  have p: "immediate s' ! i = Running (wall s + 30 * Minute) \<and>
            processingLimiter s' = Suc (processingLimiter s) \<and> workerPool s' = workerPool s"
    if "step cfg s (AcquireProcessingSlot i) = Some s'" for i s'
    using that by (auto simp: step_def processCtx_deadline_def split: if_splits)
  have b: "workerPool s' = Suc (workerPool s) \<and> processingLimiter s' = processingLimiter s"
    if "step cfg s (AcquireWorker i) = Some s'" for i s'
    using that by (auto simp: step_def split: if_splits)
  have c: "processingLimiter s = immediate_running s" "workerPool s = batch_running s"
         "int (immediate_running s) \<le> limiterSize cfg"
         "int (batch_running s) \<le> max 0 (WorkerPoolSize cfg)"
         "\<forall>d. Running d \<in> set (immediate s) \<longrightarrow> d \<le> wall s + 30 * Minute"
    using a unfolding admitted_def processCtx_deadline_def by blast+
  show ?thesis using c p b by blast
qed

theorem immediate_processing_admission_witness:
  "run cfg0 (started 0) events_both = Some runtime_both \<and>
   processingLimiter runtime_both = immediate_running runtime_both \<and>
   workerPool runtime_both = batch_running runtime_both \<and>
   int (immediate_running runtime_both) \<le> limiterSize cfg0 \<and>
   int (batch_running runtime_both) \<le> max 0 (WorkerPoolSize cfg0)"
proof -
  have r: "run cfg0 (started 0) events_both = Some runtime_both" by code_simp
  show ?thesis using immediate_processing_admission[OF r] r by blast
qed

text \<open>
  The claim as the specification words it fails: with a worker pool of one slot that a
  goroutine of a batch holds, a second goroutine of a batch is not admitted, and an
  immediate goroutine is, so that two calls of \<open>processVideo\<close> run.
\<close>

theorem immediate_processing_outside_worker_pool:
  "WorkerPoolSize cfg_one = 1 \<and>
   run cfg_one (started 0) [SpawnBatch, AcquireWorker 0, SpawnBatch, AcquireWorker 1] = None \<and>
   run cfg_one (started 0) [SpawnBatch, AcquireWorker 0, LaunchImmediate, AcquireProcessingSlot 0] =
     Some \<lparr>processingLimiter = 1, workerPool = 1, immediate = [Running 1800000000000],
           batch = [BatchRunning], wall = 0, baseDone = False\<rparr>"
  by code_simp


end
